theory Spec2Isabelle
  imports Complex_Main "HOL-Library.Multiset" "HOL-Library.List_Lexorder" "HOL-Library.Char_ord"
begin

section \<open>Data model (server/db.mjs)\<close>

text \<open>
  The four tables of \<^verbatim>\<open>initializeDatabase\<close>. Identifiers are SQLite INTEGERs
  (\<open>int\<close>). \<^verbatim>\<open>bad_luck_index\<close> is a REAL, a finite number that the code only puts
  in order (a comparison, the sign of a difference, \<^verbatim>\<open>ORDER BY\<close>): a \<open>real\<close> here.
  Timestamps are the ISO-8601 TEXT written by \<^verbatim>\<open>dayjs().toISOString()\<close>, which SQLite
  compares as text: strings in lexicographic order. The \<^verbatim>\<open>theme\<close> column of \<^verbatim>\<open>cards\<close> and the credential columns of
  \<^verbatim>\<open>users\<close> are read by none of the queries below and are left out; of a user only
  the id matters (foreign key of \<^verbatim>\<open>games.user_id\<close>).
\<close>

record card =
  card_id :: int
  card_name :: string
  card_image :: string
  bad_luck_index :: real

text \<open>The string literals the server writes into \<^verbatim>\<open>game_cards.status\<close>
  (\<^verbatim>\<open>'initial'\<close>, \<^verbatim>\<open>'won'\<close>, \<^verbatim>\<open>'lost'\<close>, \<^verbatim>\<open>'discarded'\<close>) and the one more it
  reads in \<^verbatim>\<open>getLostRoundsCount\<close> (\<^verbatim>\<open>'proposed'\<close>).\<close>

datatype status = S_initial | S_won | S_lost | S_discarded | S_proposed

text \<open>\<^verbatim>\<open>games.outcome\<close>: the placeholder \<^verbatim>\<open>''\<close> of \<^verbatim>\<open>startGame\<close>, then \<^verbatim>\<open>'Won'\<close>
  or \<^verbatim>\<open>'Lost'\<close>.\<close>

datatype outcome = InProgress | Won | Lost

text \<open>
  A value as SQLite holds it in a column of INTEGER affinity, or compares it with one:
  NULL, an integer, a number with a fraction, or a text that is not the literal of a
  number (a text that is one has become that number).
\<close>

datatype sql_value = SqlNull | SqlInteger int | SqlReal real | SqlText string

record game =
  game_id :: int
  user_id :: int
  start_time :: string
  end_time :: string
  game_outcome :: outcome
  cards_collected :: nat

record game_card =
  gc_id :: int
  gc_game_id :: int
  gc_card_id :: int
  gc_status :: status
  gc_round :: sql_value
  gc_guess_time :: "string option"
  gc_is_correct_guess :: "int option"

text \<open>
  The database behind the one shared connection. \<open>seq_games\<close> and \<open>seq_game_cards\<close>
  are the AUTOINCREMENT counters (table \<^verbatim>\<open>sqlite_sequence\<close>). \<open>txn\<close> is the snapshot
  taken by \<^verbatim>\<open>BEGIN TRANSACTION\<close> of everything the modelled statements can write;
  \<open>None\<close> means autocommit mode.
\<close>

record db =
  users :: "int list"
  cards :: "card list"
  games :: "game list"
  game_cards :: "game_card list"
  seq_games :: int
  seq_game_cards :: int
  txn :: "(game list \<times> game_card list \<times> int \<times> int) option"

datatype sql_error =
    ForeignKeyFailed
  | UniqueFailed
  | NotNullFailed
  | TransactionWithinTransaction
  | NoTransactionActive

section \<open>SQL statements\<close>

definition sql_begin :: "db \<Rightarrow> sql_error + db" where
  "sql_begin d =
     (case txn d of
        Some _ \<Rightarrow> Inl TransactionWithinTransaction
      | None \<Rightarrow> Inr (d\<lparr>txn := Some (games d, game_cards d, seq_games d, seq_game_cards d)\<rparr>))"

definition sql_commit :: "db \<Rightarrow> sql_error + db" where
  "sql_commit d =
     (case txn d of
        None \<Rightarrow> Inl NoTransactionActive
      | Some _ \<Rightarrow> Inr (d\<lparr>txn := None\<rparr>))"

definition sql_rollback :: "db \<Rightarrow> sql_error + db" where
  "sql_rollback d =
     (case txn d of
        None \<Rightarrow> Inl NoTransactionActive
      | Some (gs, gcs, sg, sgc) \<Rightarrow>
          Inr (d\<lparr>games := gs, game_cards := gcs, seq_games := sg, seq_game_cards := sgc,
                 txn := None\<rparr>))"

text \<open>AUTOINCREMENT: one more than the largest rowid ever used in the table.\<close>

definition next_rowid :: "int \<Rightarrow> int list \<Rightarrow> int" where
  "next_rowid s ids = fold max ids s + 1"

text \<open>\<^verbatim>\<open>INSERT INTO games (user_id, start_time, end_time, outcome, cards_collected)\<close>;
  returns \<^verbatim>\<open>lastID\<close>. Foreign keys are enforced (\<^verbatim>\<open>PRAGMA foreign_keys = ON\<close>);
  a failed statement changes nothing.\<close>

definition insert_game ::
  "db \<Rightarrow> int \<Rightarrow> string \<Rightarrow> string \<Rightarrow> outcome \<Rightarrow> nat \<Rightarrow> sql_error + (int \<times> db)" where
  "insert_game d uid st et oc cc =
     (if uid \<notin> set (users d) then Inl ForeignKeyFailed
      else
        let gid = next_rowid (seq_games d) (map game_id (games d))
        in Inr (gid,
             d\<lparr>games := games d @
                  [\<lparr>game_id = gid, user_id = uid, start_time = st, end_time = et,
                    game_outcome = oc, cards_collected = cc\<rparr>],
               seq_games := gid\<rparr>))"

text \<open>\<^verbatim>\<open>INSERT INTO game_cards (...)\<close> with \<^verbatim>\<open>UNIQUE (game_id, card_id)\<close> and the two
  foreign keys.\<close>

definition insert_game_card ::
  "db \<Rightarrow> int \<Rightarrow> int \<Rightarrow> status \<Rightarrow> sql_value \<Rightarrow> string option \<Rightarrow> int option \<Rightarrow> sql_error + db" where
  "insert_game_card d gid cid st rnd gt icg =
     (if (\<exists>r \<in> set (game_cards d). gc_game_id r = gid \<and> gc_card_id r = cid) then Inl UniqueFailed
      else if gid \<notin> game_id ` set (games d) \<or> cid \<notin> card_id ` set (cards d)
        then Inl ForeignKeyFailed
      else
        let rid = next_rowid (seq_game_cards d) (map gc_id (game_cards d))
        in Inr (d\<lparr>game_cards := game_cards d @
                    [\<lparr>gc_id = rid, gc_game_id = gid, gc_card_id = cid, gc_status = st,
                      gc_round = rnd, gc_guess_time = gt, gc_is_correct_guess = icg\<rparr>],
                  seq_game_cards := rid\<rparr>))"

section \<open>server/dao-cards.mjs\<close>

text \<open>
  \<^verbatim>\<open>ORDER BY RANDOM() LIMIT ?\<close>: SQLite evaluates \<^verbatim>\<open>RANDOM()\<close> once per candidate row
  and sorts by it. The generator is the parameter \<open>rnd\<close>: \<open>rnd k\<close> is the value drawn
  for the \<open>k\<close>-th candidate row.
\<close>

definition order_by_random :: "(nat \<Rightarrow> int) \<Rightarrow> 'a list \<Rightarrow> 'a list" where
  "order_by_random rnd rows = map snd (sort_key fst (zip (map rnd [0..<length rows]) rows))"

definition getRandomCards :: "(nat \<Rightarrow> int) \<Rightarrow> db \<Rightarrow> nat \<Rightarrow> int list \<Rightarrow> card list" where
  "getRandomCards rnd d limit excludeCardIds =
     (if length excludeCardIds > 0
      then take limit (order_by_random rnd
             (filter (\<lambda>c. card_id c \<notin> set excludeCardIds) (cards d)))
      else take limit (order_by_random rnd (cards d)))"

text \<open>\<^verbatim>\<open>db.get\<close> with \<^verbatim>\<open>WHERE id = ?\<close>: the first matching row, or \<^verbatim>\<open>undefined\<close>. Only
  an integer equals an id.\<close>

definition getCardById :: "db \<Rightarrow> sql_value \<Rightarrow> card option" where
  "getCardById d cardId =
     (case cardId of
        SqlInteger n \<Rightarrow> find (\<lambda>c. card_id c = n) (cards d)
      | _ \<Rightarrow> None)"

section \<open>server/dao-games.mjs\<close>

text \<open>The loop over \<^verbatim>\<open>initialCards\<close> of \<^verbatim>\<open>startGame\<close>: the first failing insert
  throws, and the rows inserted before it are still there at that moment.\<close>

fun insert_initial_cards :: "db \<Rightarrow> int \<Rightarrow> card list \<Rightarrow> (sql_error \<times> db) + db" where
  "insert_initial_cards d gid [] = Inr d"
| "insert_initial_cards d gid (c # cs) =
     (case insert_game_card d gid (card_id c) S_initial SqlNull None None of
        Inl e \<Rightarrow> Inl (e, d)
      | Inr d' \<Rightarrow> insert_initial_cards d' gid cs)"

text \<open>The \<^verbatim>\<open>try\<close> block of \<^verbatim>\<open>startGame\<close>: the error together with the database as it
  is when the error is thrown, or the new id.\<close>

definition startGame_try :: "string \<Rightarrow> db \<Rightarrow> int \<Rightarrow> card list \<Rightarrow> (sql_error \<times> db) + (int \<times> db)" where
  "startGame_try startTime d userId initialCards =
     (case sql_begin d of
        Inl e \<Rightarrow> Inl (e, d)
      | Inr d1 \<Rightarrow>
         (case insert_game d1 userId startTime [] InProgress 0 of
            Inl e \<Rightarrow> Inl (e, d1)
          | Inr (gameId, d2) \<Rightarrow>
             (case insert_initial_cards d2 gameId initialCards of
                Inl (e, d3) \<Rightarrow> Inl (e, d3)
              | Inr d3 \<Rightarrow>
                 (case sql_commit d3 of
                    Inl e \<Rightarrow> Inl (e, d3)
                  | Inr d4 \<Rightarrow> Inr (gameId, d4)))))"

text \<open>\<^verbatim>\<open>startGame\<close>: the \<^verbatim>\<open>catch\<close> block runs \<^verbatim>\<open>ROLLBACK\<close> and rethrows; if the
  \<^verbatim>\<open>ROLLBACK\<close> itself throws, that error is the one that leaves the function.\<close>

definition startGame :: "string \<Rightarrow> db \<Rightarrow> int \<Rightarrow> card list \<Rightarrow> (sql_error + int) \<times> db" where
  "startGame startTime d userId initialCards =
     (case startGame_try startTime d userId initialCards of
        Inr (gameId, d') \<Rightarrow> (Inr gameId, d')
      | Inl (err, d') \<Rightarrow>
         (case sql_rollback d' of
            Inl err' \<Rightarrow> (Inl err', d')
          | Inr d'' \<Rightarrow> (Inl err, d'')))"

text \<open>
  \<^verbatim>\<open>recordRoundOutcome\<close>: one INSERT in autocommit mode; \<^verbatim>\<open>isCorrectGuess\<close> is stored
  as 1, 0 or NULL. \<^verbatim>\<open>cardId\<close> and \<^verbatim>\<open>roundNumber\<close> are bound as the caller got them:
  \<^verbatim>\<open>card_id\<close> is NOT NULL and a foreign key, so that only the id of a card can be
  inserted; \<^verbatim>\<open>round\<close> has no constraint.
\<close>

definition recordRoundOutcome ::
  "string \<Rightarrow> db \<Rightarrow> int \<Rightarrow> sql_value \<Rightarrow> status \<Rightarrow> sql_value \<Rightarrow> bool option \<Rightarrow> sql_error + db" where
  "recordRoundOutcome guessTime d gameId cardId st roundNumber isCorrectGuess =
     (case cardId of
        SqlInteger cid \<Rightarrow>
          insert_game_card d gameId cid st roundNumber (Some guessTime)
            (if isCorrectGuess = Some True then Some 1
             else if isCorrectGuess = Some False then Some 0 else None)
      | SqlNull \<Rightarrow> Inl NotNullFailed
      | _ \<Rightarrow> Inl ForeignKeyFailed)"

text \<open>\<^verbatim>\<open>endGame\<close>: \<^verbatim>\<open>UPDATE games SET ... WHERE id = ?\<close>, unconditionally.\<close>

definition endGame :: "string \<Rightarrow> db \<Rightarrow> int \<Rightarrow> outcome \<Rightarrow> nat \<Rightarrow> db" where
  "endGame endTime d gameId oc cardsCollected =
     d\<lparr>games := map (\<lambda>g. if game_id g = gameId
                          then g\<lparr>end_time := endTime, game_outcome := oc,
                                 cards_collected := cardsCollected\<rparr>
                          else g) (games d)\<rparr>"

text \<open>A row of \<^verbatim>\<open>getGameCards\<close>: the card's columns and the event's.\<close>

record game_card_row = card +
  row_status :: status
  row_round :: sql_value
  row_guess_time :: "string option"
  row_is_correct_guess :: "int option"

definition join_row :: "game_card \<Rightarrow> card \<Rightarrow> game_card_row" where
  "join_row gc c =
     \<lparr>card_id = card_id c, card_name = card_name c, card_image = card_image c,
      bad_luck_index = bad_luck_index c,
      row_status = gc_status gc, row_round = gc_round gc,
      row_guess_time = gc_guess_time gc, row_is_correct_guess = gc_is_correct_guess gc\<rparr>"

text \<open>\<^verbatim>\<open>FROM game_cards gc JOIN cards c ON gc.card_id = c.id WHERE gc.game_id = ?\<close>.\<close>

definition game_cards_join :: "db \<Rightarrow> int \<Rightarrow> game_card_row list" where
  "game_cards_join d gameId =
     concat (map (\<lambda>gc. map (join_row gc) (filter (\<lambda>c. card_id c = gc_card_id gc) (cards d)))
                 (filter (\<lambda>gc. gc_game_id gc = gameId) (game_cards d)))"

definition getGameCards :: "db \<Rightarrow> int \<Rightarrow> game_card_row list" where
  "getGameCards d gameId = sort_key bad_luck_index (game_cards_join d gameId)"

text \<open>\<^verbatim>\<open>ORDER BY start_time DESC\<close>, rows of equal key kept in table order.\<close>

definition order_by_desc :: "('a \<Rightarrow> 'k::linorder) \<Rightarrow> 'a list \<Rightarrow> 'a list" where
  "order_by_desc f rows = rev (sort_key f (rev rows))"

text \<open>An element of the result of \<^verbatim>\<open>getGameHistory\<close>: the selected columns
  \<^verbatim>\<open>id, start_time, end_time, outcome, cards_collected\<close> and \<^verbatim>\<open>gameCards\<close>.\<close>

record history_entry =
  h_id :: int
  h_start_time :: string
  h_end_time :: string
  h_outcome :: outcome
  h_cards_collected :: nat
  gameCards :: "game_card_row list"

definition getGameHistory :: "db \<Rightarrow> int \<Rightarrow> history_entry list" where
  "getGameHistory d userId =
     map (\<lambda>g. \<lparr>h_id = game_id g, h_start_time = start_time g, h_end_time = end_time g,
               h_outcome = game_outcome g, h_cards_collected = cards_collected g,
               gameCards = getGameCards d (game_id g)\<rparr>)
         (order_by_desc start_time (filter (\<lambda>g. user_id g = userId) (games d)))"

definition getWonCardsCount :: "db \<Rightarrow> int \<Rightarrow> nat" where
  "getWonCardsCount d gameId =
     length (filter (\<lambda>r. gc_game_id r = gameId \<and> gc_status r = S_won) (game_cards d))"

definition getLostRoundsCount :: "db \<Rightarrow> int \<Rightarrow> nat" where
  "getLostRoundsCount d gameId =
     length (filter (\<lambda>r. gc_game_id r = gameId \<and>
                          (gc_status r = S_lost \<or>
                           (gc_status r = S_proposed \<and> gc_is_correct_guess r = Some 0)))
                    (game_cards d))"

definition getInvolvedCardIds :: "db \<Rightarrow> int \<Rightarrow> int list" where
  "getInvolvedCardIds d gameId =
     map gc_card_id (filter (\<lambda>r. gc_game_id r = gameId) (game_cards d))"

section \<open>server/routes.mjs\<close>

text \<open>
  A handler's answer: the status codes the handlers send, or the JSON body of a
  success. Authentication (\<^verbatim>\<open>isLoggedIn\<close>) is outside the model: the handlers are
  modelled as they run for an authenticated request.

  \<^verbatim>\<open>gameId\<close> is the result of \<^verbatim>\<open>parseInt\<close> on a path parameter: an integer, or
  \<open>None\<close> for \<^verbatim>\<open>NaN\<close>. \<^verbatim>\<open>playerHand\<close> is \<open>None\<close> when \<^verbatim>\<open>Array.isArray\<close> fails.
\<close>

datatype 'a response = BadRequest | NotFound | ServerError | Json 'a

text \<open>
  A field of the request body (\<^verbatim>\<open>cardId\<close>, \<^verbatim>\<open>placementIndex\<close>, \<^verbatim>\<open>roundNumber\<close>) is any
  JSON value, or absent. The handlers do three things with such a value, and a value
  is given by what each of them makes of it:
  \<^item> \<open>js_isNaN\<close>: what \<^verbatim>\<open>isNaN\<close> answers (false for every number of a JSON text, and for
    every other value that converts to a number, such as \<^verbatim>\<open>null\<close>, \<^verbatim>\<open>true\<close> and
    \<^verbatim>\<open>""\<close>);
  \<^item> \<open>js_integer\<close>: the start position that \<^verbatim>\<open>splice\<close> reads from it (the number it
    converts to, without its fraction; an infinite one is an integer beyond the hand);
  \<^item> \<open>js_bound\<close>: the value that the driver binds for it in a statement.
\<close>

record js_value =
  js_isNaN :: bool
  js_integer :: int
  js_bound :: sql_value

text \<open>An integer \<open>n\<close>; \<^verbatim>\<open>null\<close>; \<^verbatim>\<open>true\<close>; the empty string; an absent field.\<close>

definition json_number :: "int \<Rightarrow> js_value" where
  "json_number n = \<lparr>js_isNaN = False, js_integer = n, js_bound = SqlInteger n\<rparr>"

definition json_null :: js_value where
  "json_null = \<lparr>js_isNaN = False, js_integer = 0, js_bound = SqlNull\<rparr>"

definition json_true :: js_value where
  "json_true = \<lparr>js_isNaN = False, js_integer = 1, js_bound = SqlInteger 1\<rparr>"

definition json_empty_string :: js_value where
  "json_empty_string = \<lparr>js_isNaN = False, js_integer = 0, js_bound = SqlText []\<rparr>"

definition js_undefined :: js_value where
  "js_undefined = \<lparr>js_isNaN = True, js_integer = 0, js_bound = SqlNull\<rparr>"

text \<open>An element of the hand the client sends: the handlers read \<^verbatim>\<open>bad_luck_index\<close>
  only.\<close>

record hand_item =
  item_id :: int
  item_bli :: real

text \<open>
  \<^verbatim>\<open>tempHand.splice(start, 0, item)\<close> on a copy of the hand: a negative \<^verbatim>\<open>start\<close>
  counts from the end and is clamped at 0, any other is clamped at the length.
\<close>

definition splice_insert :: "int \<Rightarrow> 'a \<Rightarrow> 'a list \<Rightarrow> 'a list" where
  "splice_insert start item xs =
     (let len = int (length xs);
          actualStart = (if start < 0 then max (len + start) 0 else min start len)
      in take (nat actualStart) xs @ item # drop (nat actualStart) xs)"

text \<open>The \<^verbatim>\<open>for\<close> loop of the guess handler (lines 176-182 of routes.mjs), from
  index \<open>i\<close> on: \<^verbatim>\<open>isCorrect\<close> when the loop ends.\<close>

function guess_loop :: "nat \<Rightarrow> hand_item list \<Rightarrow> bool" where
  "guess_loop i tempHand =
     (if int i < int (length tempHand) - 1
      then (if item_bli (tempHand ! i) > item_bli (tempHand ! (i + 1)) then False
            else guess_loop (i + 1) tempHand)
      else True)"
  by pat_completeness auto
termination
  by (relation "measure (\<lambda>(i, tempHand). length tempHand - i)") auto

declare guess_loop.simps [simp del]

text \<open>The \<^verbatim>\<open>for\<close> loop of the demo guess handler (lines 330-336).\<close>

function demo_loop :: "nat \<Rightarrow> hand_item list \<Rightarrow> bool" where
  "demo_loop i tempHand =
     (if int i < int (length tempHand) - 1
      then (if item_bli (tempHand ! i) > item_bli (tempHand ! (i + 1)) then False
            else demo_loop (i + 1) tempHand)
      else True)"
  by pat_completeness auto
termination
  by (relation "measure (\<lambda>(i, tempHand). length tempHand - i)") auto

declare demo_loop.simps [simp del]

record start_result =
  sr_gameId :: int
  sr_initialCards :: "card list"

text \<open>\<^verbatim>\<open>POST /api/games/start\<close>. \<^verbatim>\<open>Array.prototype.sort\<close> is stable, and the
  comparator \<^verbatim>\<open>a.bad_luck_index - b.bad_luck_index\<close> orders by the index.\<close>

definition route_start ::
  "(nat \<Rightarrow> int) \<Rightarrow> string \<Rightarrow> db \<Rightarrow> int \<Rightarrow> start_result response \<times> db" where
  "route_start rnd startTime d userId =
     (let initialCards = getRandomCards rnd d 3 []
      in if length initialCards < 3 then (ServerError, d)
         else
           let sortedCards = sort_key bad_luck_index initialCards
           in case startGame startTime d userId sortedCards of
                (Inl err, d') \<Rightarrow> (ServerError, d')
              | (Inr gameId, d') \<Rightarrow>
                  (Json \<lparr>sr_gameId = gameId, sr_initialCards = sortedCards\<rparr>, d'))"

text \<open>The body of \<^verbatim>\<open>GET /api/games/:gameId/next-round\<close>: \<^verbatim>\<open>id\<close>, \<^verbatim>\<open>name\<close>,
  \<^verbatim>\<open>image\<close>.\<close>

record public_card =
  pc_id :: int
  pc_name :: string
  pc_image :: string

definition route_next_round ::
  "(nat \<Rightarrow> int) \<Rightarrow> db \<Rightarrow> int option \<Rightarrow> public_card response" where
  "route_next_round rnd d gameIdParam =
     (case gameIdParam of
        None \<Rightarrow> BadRequest
      | Some gameId \<Rightarrow>
         (let involvedCardIds = getInvolvedCardIds d gameId;
              newCards = getRandomCards rnd d 1 involvedCardIds
          in case newCards of
               [] \<Rightarrow> NotFound
             | newCard # _ \<Rightarrow>
                 Json \<lparr>pc_id = card_id newCard, pc_name = card_name newCard,
                       pc_image = card_image newCard\<rparr>))"

record guess_result =
  isCorrect :: bool
  badLuckIndex :: real
  wonCard :: "card option"
  currentCards :: "game_card_row list"
  gameOutcome :: "outcome option"
  cardsWonCount :: nat
  cardsLostCount :: nat

text \<open>\<^verbatim>\<open>POST /api/games/:gameId/guess\<close>. \<open>guessTime\<close> and \<open>endTime\<close> are the clock
  readings of \<^verbatim>\<open>recordRoundOutcome\<close> and \<^verbatim>\<open>endGame\<close>.\<close>

definition route_guess ::
  "string \<Rightarrow> string \<Rightarrow> db \<Rightarrow> int option \<Rightarrow> js_value \<Rightarrow> hand_item list option \<Rightarrow>
   js_value \<Rightarrow> js_value \<Rightarrow> guess_result response \<times> db" where
  "route_guess guessTime endTime d gameIdParam cardId playerHandField placementIndex roundNumber =
     (case (gameIdParam, playerHandField) of
        (Some gameId, Some playerHand) \<Rightarrow>
          (if js_isNaN cardId \<or> js_isNaN placementIndex \<or> js_isNaN roundNumber
           then (BadRequest, d)
           else
             case getCardById d (js_bound cardId) of
               None \<Rightarrow> (NotFound, d)
             | Some newCardDetails \<Rightarrow>
                (let tempHand = splice_insert (js_integer placementIndex)
                       \<lparr>item_id = card_id newCardDetails,
                        item_bli = bad_luck_index newCardDetails\<rparr> playerHand;
                     isCorrect = guess_loop 0 tempHand;
                     st = (if isCorrect then S_won else S_lost)
                 in case recordRoundOutcome guessTime d gameId (js_bound cardId) st
                           (js_bound roundNumber) (Some isCorrect) of
                      Inl err \<Rightarrow> (ServerError, d)
                    | Inr d1 \<Rightarrow>
                       (let currentCards =
                              filter (\<lambda>c. row_status c \<in> set [S_initial, S_won])
                                     (getGameCards d1 gameId);
                            cardsWonCount = getWonCardsCount d1 gameId;
                            cardsLostCount = getLostRoundsCount d1 gameId;
                            (gameOutcome, d2) =
                              (if cardsWonCount \<ge> 3
                               then (Some Won, endGame endTime d1 gameId Won (length currentCards))
                               else if cardsLostCount \<ge> 3
                               then (Some Lost, endGame endTime d1 gameId Lost (length currentCards))
                               else (None, d1))
                        in (Json \<lparr>isCorrect = isCorrect,
                                   badLuckIndex = bad_luck_index newCardDetails,
                                   wonCard = (if isCorrect then Some newCardDetails else None),
                                   currentCards = currentCards,
                                   gameOutcome = gameOutcome,
                                   cardsWonCount = cardsWonCount,
                                   cardsLostCount = cardsLostCount\<rparr>, d2))))
      | _ \<Rightarrow> (BadRequest, d))"

record lose_round_result =
  lr_gameOutcome :: "outcome option"
  lr_cardsLostCount :: nat

text \<open>\<^verbatim>\<open>POST /api/games/:gameId/lose-round\<close>.\<close>

definition route_lose_round ::
  "string \<Rightarrow> string \<Rightarrow> db \<Rightarrow> int option \<Rightarrow> js_value \<Rightarrow> js_value \<Rightarrow>
   lose_round_result response \<times> db" where
  "route_lose_round guessTime endTime d gameIdParam cardId roundNumber =
     (case gameIdParam of
        Some gameId \<Rightarrow>
          (if js_isNaN cardId \<or> js_isNaN roundNumber then (BadRequest, d)
           else
             case recordRoundOutcome guessTime d gameId (js_bound cardId) S_discarded
                    (js_bound roundNumber) (Some False) of
               Inl err \<Rightarrow> (ServerError, d)
             | Inr d1 \<Rightarrow>
                (let cardsLostCount = getLostRoundsCount d1 gameId
                 in if cardsLostCount \<ge> 3
                    then
                      (let currentCardsCount =
                             length (filter (\<lambda>c. row_status c \<in> set [S_initial, S_won])
                                            (getGameCards d1 gameId))
                       in (Json \<lparr>lr_gameOutcome = Some Lost, lr_cardsLostCount = cardsLostCount\<rparr>,
                           endGame endTime d1 gameId Lost currentCardsCount))
                    else (Json \<lparr>lr_gameOutcome = None, lr_cardsLostCount = cardsLostCount\<rparr>, d1)))
      | None \<Rightarrow> (BadRequest, d))"

text \<open>\<^verbatim>\<open>GET /api/history\<close>.\<close>

definition route_history :: "db \<Rightarrow> int \<Rightarrow> history_entry list response" where
  "route_history d userId = Json (getGameHistory d userId)"

record demo_guess_result =
  demo_isCorrect :: bool
  demo_badLuckIndex :: real
  demo_wonCard :: "card option"

text \<open>\<^verbatim>\<open>POST /api/demo-game/guess\<close>: nothing is written.\<close>

definition route_demo_guess ::
  "db \<Rightarrow> hand_item list option \<Rightarrow> js_value \<Rightarrow> js_value \<Rightarrow> demo_guess_result response" where
  "route_demo_guess d initialCardsField newCardId placementIndex =
     (case initialCardsField of
        Some initialCards \<Rightarrow>
          (if js_isNaN newCardId \<or> js_isNaN placementIndex then BadRequest
           else
             case getCardById d (js_bound newCardId) of
               None \<Rightarrow> NotFound
             | Some newCardDetails \<Rightarrow>
                (let tempHand = splice_insert (js_integer placementIndex)
                       \<lparr>item_id = card_id newCardDetails,
                        item_bli = bad_luck_index newCardDetails\<rparr> initialCards;
                     isCorrect = demo_loop 0 tempHand
                 in Json \<lparr>demo_isCorrect = isCorrect,
                           demo_badLuckIndex = bad_luck_index newCardDetails,
                           demo_wonCard = (if isCorrect then Some newCardDetails else None)\<rparr>))
      | None \<Rightarrow> BadRequest)"

section \<open>The judging rule in the specification's words\<close>

text \<open>A sequence is in order when every adjacent pair satisfies
  \<open>left.bad_luck_index \<le> right.bad_luck_index\<close>.\<close>

definition adjacent_nondecreasing :: "hand_item list \<Rightarrow> bool" where
  "adjacent_nondecreasing xs =
     (\<forall>i \<in> {0..<length xs - 1}. item_bli (xs ! i) \<le> item_bli (xs ! (i + 1)))"

section \<open>The worked scenario of the specification\<close>

text \<open>Catalog A (index 1), B (5), C (9), D (7); one user; the generator stub
  \<open>\<lambda>k. int k\<close> draws the cards in table order.\<close>

definition card_A :: card where
  "card_A = \<lparr>card_id = 1, card_name = ''A'', card_image = ''a.png'', bad_luck_index = 1\<rparr>"

definition card_B :: card where
  "card_B = \<lparr>card_id = 2, card_name = ''B'', card_image = ''b.png'', bad_luck_index = 5\<rparr>"

definition card_C :: card where
  "card_C = \<lparr>card_id = 3, card_name = ''C'', card_image = ''c.png'', bad_luck_index = 9\<rparr>"

definition card_D :: card where
  "card_D = \<lparr>card_id = 4, card_name = ''D'', card_image = ''d.png'', bad_luck_index = 7\<rparr>"

definition scenario_db :: db where
  "scenario_db =
     \<lparr>users = [1], cards = [card_A, card_B, card_C, card_D], games = [],
      game_cards = [], seq_games = 0, seq_game_cards = 0, txn = None\<rparr>"

definition scenario_hand :: "hand_item list" where
  "scenario_hand =
     [\<lparr>item_id = 1, item_bli = 1\<rparr>, \<lparr>item_id = 2, item_bli = 5\<rparr>, \<lparr>item_id = 3, item_bli = 9\<rparr>]"

definition initial_row :: "int \<Rightarrow> int \<Rightarrow> int \<Rightarrow> game_card" where
  "initial_row rid gid cid =
     \<lparr>gc_id = rid, gc_game_id = gid, gc_card_id = cid, gc_status = S_initial,
      gc_round = SqlNull, gc_guess_time = None, gc_is_correct_guess = None\<rparr>"

definition round_row :: "int \<Rightarrow> int \<Rightarrow> int \<Rightarrow> status \<Rightarrow> int \<Rightarrow> string \<Rightarrow> int \<Rightarrow> game_card" where
  "round_row rid gid cid st rnd gt icg =
     \<lparr>gc_id = rid, gc_game_id = gid, gc_card_id = cid, gc_status = st,
      gc_round = SqlInteger rnd, gc_guess_time = Some gt, gc_is_correct_guess = Some icg\<rparr>"

text \<open>The database after \<^verbatim>\<open>POST /api/games/start\<close> in the scenario.\<close>

definition scenario_started :: db where
  "scenario_started =
     \<lparr>users = [1], cards = [card_A, card_B, card_C, card_D],
      games = [\<lparr>game_id = 1, user_id = 1, start_time = ''t0'', end_time = [],
                game_outcome = InProgress, cards_collected = 0\<rparr>],
      game_cards = [initial_row 1 1 1, initial_row 2 1 2, initial_row 3 1 3],
      seq_games = 1, seq_game_cards = 3, txn = None\<rparr>"

text \<open>The answer of the guess handler in the scenario: D placed at index 2.\<close>

definition scenario_guess_result :: guess_result where
  "scenario_guess_result =
     \<lparr>isCorrect = True, badLuckIndex = 7, wonCard = Some card_D,
      currentCards =
        [\<lparr>card_id = 1, card_name = ''A'', card_image = ''a.png'', bad_luck_index = 1,
          row_status = S_initial, row_round = SqlNull, row_guess_time = None,
          row_is_correct_guess = None\<rparr>,
         \<lparr>card_id = 2, card_name = ''B'', card_image = ''b.png'', bad_luck_index = 5,
          row_status = S_initial, row_round = SqlNull, row_guess_time = None,
          row_is_correct_guess = None\<rparr>,
         \<lparr>card_id = 4, card_name = ''D'', card_image = ''d.png'', bad_luck_index = 7,
          row_status = S_won, row_round = SqlInteger 1, row_guess_time = Some ''t1'',
          row_is_correct_guess = Some 1\<rparr>,
         \<lparr>card_id = 3, card_name = ''C'', card_image = ''c.png'', bad_luck_index = 9,
          row_status = S_initial, row_round = SqlNull, row_guess_time = None,
          row_is_correct_guess = None\<rparr>],
      gameOutcome = None, cardsWonCount = 1, cardsLostCount = 0\<rparr>"

definition scenario_guessed :: db where
  "scenario_guessed =
     scenario_started\<lparr>game_cards := game_cards scenario_started @ [round_row 4 1 4 S_won 1 ''t1'' 1],
                      seq_game_cards := 4\<rparr>"

text \<open>The scenario's database after the start, with another index for D.\<close>

definition scenario_started_other_index :: db where
  "scenario_started_other_index =
     scenario_started\<lparr>cards := [card_A, card_B, card_C, card_D\<lparr>bad_luck_index := 100\<rparr>]\<rparr>"

text \<open>Three games of two users, for the history.\<close>

definition history_db :: db where
  "history_db =
     \<lparr>users = [1, 2], cards = [card_A, card_B, card_C, card_D],
      games =
        [\<lparr>game_id = 1, user_id = 1, start_time = ''2025-06-01T10:00:00.000Z'',
          end_time = [], game_outcome = InProgress, cards_collected = 0\<rparr>,
         \<lparr>game_id = 2, user_id = 2, start_time = ''2025-06-02T10:00:00.000Z'',
          end_time = [], game_outcome = InProgress, cards_collected = 0\<rparr>,
         \<lparr>game_id = 3, user_id = 1, start_time = ''2025-06-03T09:30:00.000Z'',
          end_time = [], game_outcome = InProgress, cards_collected = 0\<rparr>],
      game_cards =
        [initial_row 1 1 3, initial_row 2 1 1, initial_row 3 2 2,
         initial_row 4 3 4, round_row 5 3 2 S_won 1 ''2025-06-03T09:31:10.000Z'' 1],
      seq_games = 3, seq_game_cards = 5, txn = None\<rparr>"

section \<open>A longer catalog and three games played on it\<close>

text \<open>Five more cards: E (index 3), F (11), G (13), H (15), I (17).\<close>

definition card_E :: card where
  "card_E = \<lparr>card_id = 5, card_name = ''E'', card_image = ''e.png'', bad_luck_index = 3\<rparr>"

definition card_F :: card where
  "card_F = \<lparr>card_id = 6, card_name = ''F'', card_image = ''f.png'', bad_luck_index = 11\<rparr>"

definition card_G :: card where
  "card_G = \<lparr>card_id = 7, card_name = ''G'', card_image = ''g.png'', bad_luck_index = 13\<rparr>"

definition card_H :: card where
  "card_H = \<lparr>card_id = 8, card_name = ''H'', card_image = ''h.png'', bad_luck_index = 15\<rparr>"

definition card_I :: card where
  "card_I = \<lparr>card_id = 9, card_name = ''I'', card_image = ''i.png'', bad_luck_index = 17\<rparr>"

definition long_catalog :: "card list" where
  "long_catalog =
     [card_A, card_B, card_C, card_D, card_E, card_F, card_G, card_H, card_I]"

definition long_db :: db where
  "long_db = scenario_db\<lparr>cards := long_catalog\<rparr>"

definition long_started :: db where
  "long_started = scenario_started\<lparr>cards := long_catalog\<rparr>"

text \<open>The hand as the client sends it.\<close>

definition hand_of :: "card list \<Rightarrow> hand_item list" where
  "hand_of cs = map (\<lambda>c. \<lparr>item_id = card_id c, item_bli = bad_luck_index c\<rparr>) cs"

text \<open>What is compared of an answer of the guess handler: the decision, the outcome, the
  two counts and the ids of the hand.\<close>

definition summary :: "guess_result \<Rightarrow> bool \<times> outcome option \<times> nat \<times> nat \<times> int list" where
  "summary res = (isCorrect res, gameOutcome res, cardsWonCount res, cardsLostCount res,
                  map card_id (currentCards res))"

text \<open>Three timeouts in a row on the started game: cards D, E, F.\<close>

definition timeout_1 :: "lose_round_result response \<times> db" where
  "timeout_1 = route_lose_round ''t1'' ''e1'' long_started (Some 1) (json_number 4) (json_number 1)"

definition timeout_2 :: "lose_round_result response \<times> db" where
  "timeout_2 = route_lose_round ''t2'' ''e2'' (snd timeout_1) (Some 1) (json_number 5) (json_number 2)"

definition timeout_3 :: "lose_round_result response \<times> db" where
  "timeout_3 = route_lose_round ''t3'' ''e3'' (snd timeout_2) (Some 1) (json_number 6) (json_number 3)"











section \<open>Auxiliary notions of the statements\<close>

text \<open>The columns of an event row other than its own rowid.\<close>

definition event_columns ::
  "game_card \<Rightarrow> int \<times> int \<times> status \<times> sql_value \<times> string option \<times> int option" where
  "event_columns r =
     (gc_game_id r, gc_card_id r, gc_status r, gc_round r, gc_guess_time r, gc_is_correct_guess r)"

section \<open>Properties\<close>

lemmas scenario_defs = card_A_def card_B_def card_C_def card_D_def scenario_db_def
  scenario_hand_def initial_row_def round_row_def scenario_started_def

lemmas json_defs = json_number_def json_null_def json_true_def json_empty_string_def
  js_undefined_def

lemmas dao_defs = getRandomCards_def order_by_random_def startGame_def startGame_try_def
  sql_begin_def sql_commit_def sql_rollback_def insert_game_def insert_game_card_def
  next_rowid_def recordRoundOutcome_def endGame_def getGameCards_def game_cards_join_def
  join_row_def getWonCardsCount_def getLostRoundsCount_def getInvolvedCardIds_def
  getCardById_def

subsection \<open>The round judge\<close>

lemma guess_loop_iff:
  "guess_loop i xs =
     (\<forall>j. i \<le> j \<and> j + 1 < length xs \<longrightarrow> item_bli (xs ! j) \<le> item_bli (xs ! (j + 1)))"
proof (induction i xs rule: guess_loop.induct)
  case (1 i tempHand)
  show ?case
  proof (cases "int i < int (length tempHand) - 1")
    case False
    then show ?thesis by (subst guess_loop.simps) auto
  next
    case inside: True
    show ?thesis
    proof (cases "item_bli (tempHand ! i) > item_bli (tempHand ! (i + 1))")
      case True
      with inside show ?thesis
        by (subst guess_loop.simps) (auto intro!: exI[of _ i])
    next
      case False
      with inside 1 have "guess_loop i tempHand =
          (\<forall>j. i + 1 \<le> j \<and> j + 1 < length tempHand \<longrightarrow>
               item_bli (tempHand ! j) \<le> item_bli (tempHand ! (j + 1)))"
        by (subst guess_loop.simps) simp
      also have "\<dots> =
          (\<forall>j. i \<le> j \<and> j + 1 < length tempHand \<longrightarrow>
               item_bli (tempHand ! j) \<le> item_bli (tempHand ! (j + 1)))"
        using False by (metis Suc_eq_plus1 Suc_leI le_neq_implies_less not_less add_leD1)
      finally show ?thesis .
    qed
  qed
qed

lemma demo_loop_iff:
  "demo_loop i xs =
     (\<forall>j. i \<le> j \<and> j + 1 < length xs \<longrightarrow> item_bli (xs ! j) \<le> item_bli (xs ! (j + 1)))"
proof (induction i xs rule: demo_loop.induct)
  case (1 i tempHand)
  show ?case
  proof (cases "int i < int (length tempHand) - 1")
    case False
    then show ?thesis by (subst demo_loop.simps) auto
  next
    case inside: True
    show ?thesis
    proof (cases "item_bli (tempHand ! i) > item_bli (tempHand ! (i + 1))")
      case True
      with inside show ?thesis
        by (subst demo_loop.simps) (auto intro!: exI[of _ i])
    next
      case False
      with inside 1 have "demo_loop i tempHand =
          (\<forall>j. i + 1 \<le> j \<and> j + 1 < length tempHand \<longrightarrow>
               item_bli (tempHand ! j) \<le> item_bli (tempHand ! (j + 1)))"
        by (subst demo_loop.simps) simp
      also have "\<dots> =
          (\<forall>j. i \<le> j \<and> j + 1 < length tempHand \<longrightarrow>
               item_bli (tempHand ! j) \<le> item_bli (tempHand ! (j + 1)))"
        using False by (metis Suc_eq_plus1 Suc_leI le_neq_implies_less not_less add_leD1)
      finally show ?thesis .
    qed
  qed
qed

lemma guess_loop_adjacent: "guess_loop 0 xs = adjacent_nondecreasing xs"
  unfolding guess_loop_iff adjacent_nondecreasing_def by auto

lemma demo_loop_adjacent: "demo_loop 0 xs = adjacent_nondecreasing xs"
  unfolding demo_loop_iff adjacent_nondecreasing_def by auto

text \<open>The specification's other wording: non-decreasing end to end.\<close>

lemma adjacent_nondecreasing_sorted: "adjacent_nondecreasing xs = sorted (map item_bli xs)"
  unfolding adjacent_nondecreasing_def by (auto simp: sorted_iff_nth_Suc)

lemma splice_insert_in_range:
  "0 \<le> p \<Longrightarrow> p \<le> int (length xs) \<Longrightarrow>
     splice_insert p x xs = take (nat p) xs @ x # drop (nat p) xs"
  by (simp add: splice_insert_def Let_def min_def)

lemma route_guess_isCorrect:
  assumes "getCardById d (js_bound cardId) = Some newCard"
    and "route_guess gt et d (Some gameId) cardId (Some hand) placementIndex roundNumber
           = (Json res, d')"
  shows "isCorrect res = guess_loop 0 (splice_insert (js_integer placementIndex)
            \<lparr>item_id = card_id newCard, item_bli = bad_luck_index newCard\<rparr> hand)"
  using assms
  by (auto simp: route_guess_def Let_def split: sum.splits if_splits prod.splits)

lemma route_demo_guess_isCorrect:
  assumes "getCardById d (js_bound cardId) = Some newCard"
    and "\<not> js_isNaN cardId" "\<not> js_isNaN placementIndex"
  shows "\<exists>res. route_demo_guess d (Some hand) cardId placementIndex = Json res \<and>
           demo_isCorrect res = demo_loop 0 (splice_insert (js_integer placementIndex)
            \<lparr>item_id = card_id newCard, item_bli = bad_luck_index newCard\<rparr> hand)"
  using assms by (simp add: route_demo_guess_def Let_def)

text \<open>
  C3. The judge is a function of the hand, the proposed position and the index that
  the server fetched for the new card: whenever the guess handler answers, its
  \<^verbatim>\<open>isCorrect\<close> is true exactly when every adjacent pair of the hand with the new card
  spliced in satisfies \<open>left \<le> right\<close> (equality allowed); the demo handler, for a request
  that passes its checks, answers with the same decision; and for a position between 0
  and the length of the hand the spliced sequence is the hand with the new card inserted
  at that position. This holds for every value of the request fields, numbers
  (\<open>json_number\<close>) among them.
\<close>

theorem round_judge_decision:
  assumes "getCardById d (js_bound cardId) = Some newCard"
  shows "(\<forall>res d'. route_guess gt et d (Some gameId) cardId (Some hand) placementIndex roundNumber
                     = (Json res, d')
            \<longrightarrow> isCorrect res = adjacent_nondecreasing (splice_insert (js_integer placementIndex)
                   \<lparr>item_id = card_id newCard, item_bli = bad_luck_index newCard\<rparr> hand))
       \<and> (\<not> js_isNaN cardId \<and> \<not> js_isNaN placementIndex \<longrightarrow>
            (\<exists>res. route_demo_guess d (Some hand) cardId placementIndex = Json res \<and>
               demo_isCorrect res = adjacent_nondecreasing (splice_insert (js_integer placementIndex)
                   \<lparr>item_id = card_id newCard, item_bli = bad_luck_index newCard\<rparr> hand)))
       \<and> (0 \<le> js_integer placementIndex \<and> js_integer placementIndex \<le> int (length hand) \<longrightarrow>
             splice_insert (js_integer placementIndex)
                 \<lparr>item_id = card_id newCard, item_bli = bad_luck_index newCard\<rparr> hand
               = take (nat (js_integer placementIndex)) hand
                   @ \<lparr>item_id = card_id newCard, item_bli = bad_luck_index newCard\<rparr>
                   # drop (nat (js_integer placementIndex)) hand)"
  using route_guess_isCorrect[OF assms] route_demo_guess_isCorrect[OF assms]
  by (simp add: guess_loop_adjacent demo_loop_adjacent splice_insert_in_range)

lemma scenario_guess_eval:
  "route_guess ''t1'' ''t2'' scenario_started (Some 1) (json_number 4) (Some scenario_hand) (json_number 2) (json_number 1)
     = (Json scenario_guess_result, scenario_guessed)"
  by (simp add: route_guess_def dao_defs scenario_defs json_defs scenario_guess_result_def
        scenario_guessed_def splice_insert_def Let_def guess_loop.simps)

theorem round_judge_decision_witness:
  "getCardById scenario_started (SqlInteger 4) = Some card_D
   \<and> map_response isCorrect (fst (route_guess ''t1'' ''t2'' scenario_started (Some 1) (json_number 4)
        (Some scenario_hand) (json_number 2) (json_number 1))) = Json True
   \<and> adjacent_nondecreasing (splice_insert 2 \<lparr>item_id = 4, item_bli = 7\<rparr> scenario_hand)
   \<and> map_response demo_isCorrect
        (route_demo_guess scenario_started (Some scenario_hand) (json_number 4) (json_number 2)) = Json True
   \<and> splice_insert 2 \<lparr>item_id = 4, item_bli = 7\<rparr> scenario_hand
       = [\<lparr>item_id = 1, item_bli = 1\<rparr>, \<lparr>item_id = 2, item_bli = 5\<rparr>,
          \<lparr>item_id = 4, item_bli = 7\<rparr>, \<lparr>item_id = 3, item_bli = 9\<rparr>]"
proof -
  have c: "getCardById scenario_started (js_bound (json_number 4)) = Some card_D"
    by (simp add: getCardById_def scenario_defs json_defs)
  have item: "\<lparr>item_id = card_id card_D, item_bli = bad_luck_index card_D\<rparr>
                = \<lparr>item_id = 4, item_bli = 7\<rparr>"
    by (simp add: card_D_def)
  have n: "\<not> js_isNaN (json_number 4)" "\<not> js_isNaN (json_number 2)"
      "js_integer (json_number 2) = 2" "js_bound (json_number 4) = SqlInteger 4"
    by (simp_all add: json_defs)
  note j = round_judge_decision[where cardId = "json_number 4" and gt = "''t1''"
      and et = "''t2''" and gameId = 1 and hand = scenario_hand
      and placementIndex = "json_number 2" and roundNumber = "json_number 1",
      OF c, unfolded item n(3)]
  have s: "splice_insert 2 \<lparr>item_id = 4, item_bli = 7\<rparr> scenario_hand
       = [\<lparr>item_id = 1, item_bli = 1\<rparr>, \<lparr>item_id = 2, item_bli = 5\<rparr>,
          \<lparr>item_id = 4, item_bli = 7\<rparr>, \<lparr>item_id = 3, item_bli = 9\<rparr>]"
    using j by (simp add: scenario_hand_def)
  have g: "adjacent_nondecreasing (splice_insert 2 \<lparr>item_id = 4, item_bli = 7\<rparr> scenario_hand)"
    using j scenario_guess_eval by (simp add: scenario_guess_result_def)
  from j g n(1,2) have d: "map_response demo_isCorrect
        (route_demo_guess scenario_started (Some scenario_hand) (json_number 4) (json_number 2)) = Json True"
    by auto
  show ?thesis
    using c n(4) scenario_guess_eval g d s by (simp add: scenario_guess_result_def)
qed

subsection \<open>The worked scenario\<close>

lemma scenario_start_eval:
  "route_start (\<lambda>k. int k) ''t0'' scenario_db 1
     = (Json \<lparr>sr_gameId = 1, sr_initialCards = [card_A, card_B, card_C]\<rparr>, scenario_started)"
  by (simp add: route_start_def dao_defs scenario_defs upt_rec[of 0] numeral_eq_Suc)

lemma scenario_next_round_eval:
  "route_next_round (\<lambda>k. int k) scenario_started (Some 1)
     = Json \<lparr>pc_id = 4, pc_name = ''D'', pc_image = ''d.png''\<rparr>"
  by (simp add: route_next_round_def dao_defs scenario_defs)

text \<open>
  C8, as the code has it. In the scenario (hand A, B, C with indices 1, 5, 9; D with
  index 7 placed at index 2) the guess handler judges the placement correct, records D
  as won, and answers with a hand of four cards in the order A, B, D, C. The won-count
  it answers with is 1: \<^verbatim>\<open>getWonCardsCount\<close> counts the rows of status \<^verbatim>\<open>won\<close>, and the
  three initial cards are not among them.
\<close>

theorem scenario_guess_correct:
  "route_start (\<lambda>k. int k) ''t0'' scenario_db 1
     = (Json \<lparr>sr_gameId = 1, sr_initialCards = [card_A, card_B, card_C]\<rparr>, scenario_started)
   \<and> route_next_round (\<lambda>k. int k) scenario_started (Some 1)
     = Json \<lparr>pc_id = 4, pc_name = ''D'', pc_image = ''d.png''\<rparr>
   \<and> route_guess ''t1'' ''t2'' scenario_started (Some 1) (json_number 4) (Some scenario_hand) (json_number 2) (json_number 1)
     = (Json scenario_guess_result, scenario_guessed)
   \<and> isCorrect scenario_guess_result
   \<and> wonCard scenario_guess_result = Some card_D
   \<and> map card_id (currentCards scenario_guess_result) = [1, 2, 4, 3]
   \<and> map bad_luck_index (currentCards scenario_guess_result) = [1, 5, 7, 9]
   \<and> length (currentCards scenario_guess_result) = 4
   \<and> cardsWonCount scenario_guess_result = 1
   \<and> getWonCardsCount scenario_guessed 1 = 1"
  using scenario_start_eval scenario_next_round_eval scenario_guess_eval
  by (simp add: scenario_guess_result_def scenario_guessed_def join_row_def getWonCardsCount_def
        scenario_defs)

text \<open>C8 as stated fails: the won-count in the answer is not 4.\<close>

theorem scenario_won_count_counterexample:
  "map_response cardsWonCount
     (fst (route_guess ''t1'' ''t2'' scenario_started (Some 1) (json_number 4) (Some scenario_hand)
             (json_number 2) (json_number 1))) \<noteq> Json 4"
  using scenario_guess_eval by (simp add: scenario_guess_result_def)

subsection \<open>Drawing the next card\<close>

lemma insort_key_map:
  "insort_key k (g x) (map g ys) = map g (insort_key (\<lambda>y. k (g y)) x ys)"
  by (induction ys) simp_all

lemma sort_key_map: "sort_key k (map g zs) = map g (sort_key (\<lambda>y. k (g y)) zs)"
  by (induction zs) (simp_all add: insort_key_map)

lemma map_order_by_random: "map f (order_by_random rnd rows) = order_by_random rnd (map f rows)"
proof -
  have "zip (map rnd [0..<length rows]) (map f rows)
          = map (\<lambda>p. (fst p, f (snd p))) (zip (map rnd [0..<length rows]) rows)"
    by (simp add: zip_map2 case_prod_unfold)
  then show ?thesis
    by (simp add: order_by_random_def sort_key_map comp_def)
qed

lemma mset_order_by_random: "mset (order_by_random rnd rows) = mset rows"
proof -
  have "mset (map snd (sort_key fst (zip (map rnd [0..<length rows]) rows)))
          = mset (map snd (zip (map rnd [0..<length rows]) rows))"
    by (metis mset_map mset_sort)
  then show ?thesis by (simp add: order_by_random_def)
qed

lemma set_order_by_random: "set (order_by_random rnd rows) = set rows"
  by (metis mset_order_by_random set_mset_mset)

lemma length_order_by_random: "length (order_by_random rnd rows) = length rows"
  by (metis mset_order_by_random size_mset)

lemma getRandomCards_eligible:
  "set (getRandomCards rnd d limit ex) \<subseteq> {c \<in> set (cards d). card_id c \<notin> set ex}"
proof (cases "length ex > 0")
  case True
  then have "set (getRandomCards rnd d limit ex)
               \<subseteq> set (order_by_random rnd (filter (\<lambda>c. card_id c \<notin> set ex) (cards d)))"
    by (simp add: getRandomCards_def set_take_subset)
  then show ?thesis by (auto simp: set_order_by_random)
next
  case False
  then have "set (getRandomCards rnd d limit ex) \<subseteq> set (order_by_random rnd (cards d))"
    by (simp add: getRandomCards_def set_take_subset)
  with False show ?thesis by (auto simp: set_order_by_random)
qed

lemma order_by_random_Nil: "order_by_random rnd rows = [] \<longleftrightarrow> rows = []"
  using length_order_by_random[of rnd rows] by (metis length_0_conv)

lemma getRandomCards_one_empty:
  "getRandomCards rnd d 1 ex = [] \<longleftrightarrow> (\<forall>c \<in> set (cards d). card_id c \<in> set ex)"
proof -
  have nil: "take 1 xs = [] \<longleftrightarrow> xs = []" for xs :: "card list"
    by (cases xs) auto
  have "getRandomCards rnd d 1 ex = []
          \<longleftrightarrow> filter (\<lambda>c. card_id c \<notin> set ex) (cards d) = []"
  proof (cases "length ex > 0")
    case True
    then have "getRandomCards rnd d 1 ex
                 = take 1 (order_by_random rnd (filter (\<lambda>c. card_id c \<notin> set ex) (cards d)))"
      by (simp add: getRandomCards_def)
    then show ?thesis by (simp only: nil order_by_random_Nil)
  next
    case False
    then have "getRandomCards rnd d 1 ex = take 1 (order_by_random rnd (cards d))"
      by (simp add: getRandomCards_def)
    moreover from False have "filter (\<lambda>c. card_id c \<notin> set ex) (cards d) = cards d"
      by simp
    ultimately show ?thesis by (simp only: nil order_by_random_Nil)
  qed
  then show ?thesis by (simp add: filter_empty_conv)
qed

lemma set_getInvolvedCardIds:
  "set (getInvolvedCardIds d gameId)
     = gc_card_id ` {r \<in> set (game_cards d). gc_game_id r = gameId}"
  by (auto simp: getInvolvedCardIds_def)

text \<open>
  C5. Whatever the generator draws, a card returned by the next-round handler is a
  catalog card whose id appears in no row of the game's event log, whatever the row's
  status; the excluded set is the set of card ids of all the game's rows; and the handler
  answers 404 (no more unique cards) exactly when every catalog card is already involved.
\<close>

theorem next_round_excludes_involved:
  "(\<forall>pc. route_next_round rnd d (Some gameId) = Json pc \<longrightarrow>
        pc_id pc \<notin> set (getInvolvedCardIds d gameId)
      \<and> (\<forall>r \<in> set (game_cards d). gc_game_id r = gameId \<longrightarrow> gc_card_id r \<noteq> pc_id pc)
      \<and> pc_id pc \<in> card_id ` set (cards d))
   \<and> (route_next_round rnd d (Some gameId) = NotFound \<longleftrightarrow>
        (\<forall>c \<in> set (cards d). card_id c \<in> set (getInvolvedCardIds d gameId)))
   \<and> route_next_round rnd d (Some gameId) \<noteq> BadRequest
   \<and> route_next_round rnd d (Some gameId) \<noteq> ServerError"
proof -
  let ?inv = "getInvolvedCardIds d gameId"
  let ?new = "getRandomCards rnd d 1 ?inv"
  have sub: "set ?new \<subseteq> {c \<in> set (cards d). card_id c \<notin> set ?inv}"
    by (rule getRandomCards_eligible)
  have empty: "?new = [] \<longleftrightarrow> (\<forall>c \<in> set (cards d). card_id c \<in> set ?inv)"
    by (rule getRandomCards_one_empty)
  show ?thesis
  proof (cases ?new)
    case Nil
    with empty show ?thesis by (simp add: route_next_round_def Let_def)
  next
    case (Cons c cs)
    with sub have c: "c \<in> set (cards d)" "card_id c \<notin> set ?inv" by auto
    from c(2) have "\<forall>r \<in> set (game_cards d). gc_game_id r = gameId \<longrightarrow> gc_card_id r \<noteq> card_id c"
      unfolding set_getInvolvedCardIds by force
    with Cons c empty show ?thesis
      by (auto simp: route_next_round_def Let_def)
  qed
qed

theorem next_round_excludes_involved_witness:
  "route_next_round (\<lambda>k. int k) scenario_started (Some 1)
     = Json \<lparr>pc_id = 4, pc_name = ''D'', pc_image = ''d.png''\<rparr>
   \<and> getInvolvedCardIds scenario_started 1 = [1, 2, 3]
   \<and> 4 \<notin> set (getInvolvedCardIds scenario_started 1)
   \<and> getInvolvedCardIds scenario_guessed 1 = [1, 2, 3, 4]
   \<and> route_next_round (\<lambda>k. int k) scenario_guessed (Some 1) = NotFound"
proof -
  have inv: "getInvolvedCardIds scenario_started 1 = [1, 2, 3]"
    by (simp add: getInvolvedCardIds_def scenario_defs)
  have inv': "getInvolvedCardIds scenario_guessed 1 = [1, 2, 3, 4]"
    by (simp add: getInvolvedCardIds_def scenario_guessed_def scenario_defs)
  have cs: "cards scenario_guessed = [card_A, card_B, card_C, card_D]"
    by (simp add: scenario_guessed_def scenario_defs)
  have all: "\<forall>c \<in> set (cards scenario_guessed). card_id c \<in> set (getInvolvedCardIds scenario_guessed 1)"
    unfolding inv' cs by (simp add: scenario_defs)
  from next_round_excludes_involved[of "\<lambda>k. int k" scenario_started 1] scenario_next_round_eval
  have "4 \<notin> set (getInvolvedCardIds scenario_started 1)"
    by simp
  moreover from next_round_excludes_involved[of "\<lambda>k. int k" scenario_guessed 1] all
  have "route_next_round (\<lambda>k. int k) scenario_guessed (Some 1) = NotFound"
    by blast
  ultimately show ?thesis
    using inv inv' scenario_next_round_eval by simp
qed

lemma route_next_round_Json:
  assumes "route_next_round rnd d gameIdParam = Json pc"
  shows "\<exists>c \<in> set (cards d).
           pc = \<lparr>pc_id = card_id c, pc_name = card_name c, pc_image = card_image c\<rparr>"
proof -
  from assms obtain gameId where some: "gameIdParam = Some gameId"
    by (cases gameIdParam) (simp_all add: route_next_round_def)
  let ?new = "getRandomCards rnd d 1 (getInvolvedCardIds d gameId)"
  from assms some obtain c cs where new: "?new = c # cs"
    by (cases ?new) (simp_all add: route_next_round_def Let_def)
  with getRandomCards_eligible[of rnd d 1 "getInvolvedCardIds d gameId"] have "c \<in> set (cards d)"
    by auto
  moreover from assms some new
  have "pc = \<lparr>pc_id = card_id c, pc_name = card_name c, pc_image = card_image c\<rparr>"
    by (simp add: route_next_round_def Let_def)
  ultimately show ?thesis by blast
qed

text \<open>
  C9. The answer of the next-round handler does not depend on any \<^verbatim>\<open>bad_luck_index\<close>:
  two databases whose catalogs agree row by row on id, name and image (and so may differ
  in the index of the drawn card, or of any card) and whose event logs are equal give,
  for the same draw, the same answer. An answer with a card consists of the id, the name
  and the image of one catalog card; its type has no other field.
\<close>

theorem next_round_hides_index:
  assumes cat: "map (\<lambda>c. (card_id c, card_name c, card_image c)) (cards d1)
                  = map (\<lambda>c. (card_id c, card_name c, card_image c)) (cards d2)"
    and log: "game_cards d1 = game_cards d2"
  shows "route_next_round rnd d1 gameIdParam = route_next_round rnd d2 gameIdParam
       \<and> (\<forall>pc. route_next_round rnd d1 gameIdParam = Json pc \<longrightarrow>
             (\<exists>c \<in> set (cards d1).
                pc = \<lparr>pc_id = card_id c, pc_name = card_name c, pc_image = card_image c\<rparr>))"
proof (rule conjI)
  show "\<forall>pc. route_next_round rnd d1 gameIdParam = Json pc \<longrightarrow>
             (\<exists>c \<in> set (cards d1).
                pc = \<lparr>pc_id = card_id c, pc_name = card_name c, pc_image = card_image c\<rparr>)"
    using route_next_round_Json by blast
  show "route_next_round rnd d1 gameIdParam = route_next_round rnd d2 gameIdParam"
  proof (cases gameIdParam)
    case None
    then show ?thesis by (simp add: route_next_round_def)
  next
    case (Some gameId)
    let ?pv = "\<lambda>c. (card_id c, card_name c, card_image c)"
    let ?inv = "getInvolvedCardIds d1 gameId"
    have inv: "getInvolvedCardIds d2 gameId = ?inv"
      using log by (simp add: getInvolvedCardIds_def)
    have filt: "map ?pv (filter (\<lambda>c. card_id c \<notin> set ?inv) (cards d))
                 = filter (\<lambda>t. fst t \<notin> set ?inv) (map ?pv (cards d))" for d :: db
      by (simp add: filter_map comp_def)
    have draw: "map ?pv (getRandomCards rnd d 1 ?inv)
                  = (if length ?inv > 0
                     then take 1 (order_by_random rnd (filter (\<lambda>t. fst t \<notin> set ?inv) (map ?pv (cards d))))
                     else take 1 (order_by_random rnd (map ?pv (cards d))))" for d :: db
      unfolding getRandomCards_def
      by (simp only: if_distrib[of "map ?pv"] take_map[symmetric] map_order_by_random filt)
    have "map ?pv (getRandomCards rnd d1 1 ?inv) = map ?pv (getRandomCards rnd d2 1 ?inv)"
      unfolding draw cat ..
    then have "(case getRandomCards rnd d1 1 ?inv of [] \<Rightarrow> NotFound
                | newCard # _ \<Rightarrow> Json \<lparr>pc_id = card_id newCard, pc_name = card_name newCard,
                         pc_image = card_image newCard\<rparr>)
             = (case getRandomCards rnd d2 1 ?inv of [] \<Rightarrow> NotFound
                | newCard # _ \<Rightarrow> Json \<lparr>pc_id = card_id newCard, pc_name = card_name newCard,
                         pc_image = card_image newCard\<rparr>)"
      by (cases "getRandomCards rnd d1 1 ?inv"; cases "getRandomCards rnd d2 1 ?inv") auto
    with Some inv show ?thesis by (simp add: route_next_round_def Let_def)
  qed
qed

theorem next_round_hides_index_witness:
  "map (\<lambda>c. (card_id c, card_name c, card_image c)) (cards scenario_started)
     = map (\<lambda>c. (card_id c, card_name c, card_image c)) (cards scenario_started_other_index)
   \<and> game_cards scenario_started = game_cards scenario_started_other_index
   \<and> map bad_luck_index (cards scenario_started) = [1, 5, 9, 7]
   \<and> map bad_luck_index (cards scenario_started_other_index) = [1, 5, 9, 100]
   \<and> route_next_round (\<lambda>k. int k) scenario_started_other_index (Some 1)
       = Json \<lparr>pc_id = 4, pc_name = ''D'', pc_image = ''d.png''\<rparr>
   \<and> route_next_round (\<lambda>k. int k) scenario_started (Some 1)
       = route_next_round (\<lambda>k. int k) scenario_started_other_index (Some 1)"
proof -
  have cat: "map (\<lambda>c. (card_id c, card_name c, card_image c)) (cards scenario_started)
     = map (\<lambda>c. (card_id c, card_name c, card_image c)) (cards scenario_started_other_index)"
    by (simp add: scenario_started_other_index_def scenario_defs)
  have log: "game_cards scenario_started = game_cards scenario_started_other_index"
    by (simp add: scenario_started_other_index_def)
  have idx: "map bad_luck_index (cards scenario_started) = [1, 5, 9, 7]"
    "map bad_luck_index (cards scenario_started_other_index) = [1, 5, 9, 100]"
    by (simp_all add: scenario_started_other_index_def scenario_defs)
  note same = next_round_hides_index[OF cat log, of "\<lambda>k. int k" "Some 1"]
  with scenario_next_round_eval cat log idx show ?thesis by simp
qed

subsection \<open>History\<close>

lemma mset_order_by_desc: "mset (order_by_desc f rows) = mset rows"
  by (simp add: order_by_desc_def)

lemma sorted_order_by_desc: "sorted (rev (map f (order_by_desc f rows)))"
  by (simp add: order_by_desc_def rev_map)

lemma length_filter_unique:
  "distinct (map f xs) \<Longrightarrow> y \<in> f ` set xs \<Longrightarrow> length (filter (\<lambda>x. f x = y) xs) = 1"
proof (induction xs)
  case Nil
  then show ?case by simp
next
  case (Cons a xs)
  show ?case
  proof (cases "f a = y")
    case True
    with Cons.prems have "y \<notin> f ` set xs"
      by auto
    then have "filter (\<lambda>x. f x = y) xs = []"
      by (auto simp: filter_empty_conv)
    with True show ?thesis by simp
  next
    case False
    with Cons show ?thesis by auto
  qed
qed

lemma set_game_cards_join:
  "set (game_cards_join d gameId)
     = {join_row r c | r c. r \<in> set (game_cards d) \<and> gc_game_id r = gameId
                             \<and> c \<in> set (cards d) \<and> card_id c = gc_card_id r}"
  by (auto simp: game_cards_join_def)

lemma length_game_cards_join:
  assumes "distinct (map card_id (cards d))"
    and "\<forall>r \<in> set (game_cards d). gc_card_id r \<in> card_id ` set (cards d)"
  shows "length (game_cards_join d gameId)
           = length (filter (\<lambda>r. gc_game_id r = gameId) (game_cards d))"
proof -
  have one: "length (map (join_row r) (filter (\<lambda>c. card_id c = gc_card_id r) (cards d))) = 1"
    if "r \<in> set (game_cards d)" for r
    using assms that by (simp add: length_filter_unique)
  have "length (game_cards_join d gameId)
          = sum_list (map (\<lambda>r. length (map (join_row r)
                (filter (\<lambda>c. card_id c = gc_card_id r) (cards d))))
              (filter (\<lambda>r. gc_game_id r = gameId) (game_cards d)))"
    by (simp add: game_cards_join_def length_concat comp_def)
  also have "\<dots> = sum_list (map (\<lambda>r. 1) (filter (\<lambda>r. gc_game_id r = gameId) (game_cards d)))"
    by (rule arg_cong[where f = sum_list], rule map_cong) (use one in auto)
  also have "\<dots> = length (filter (\<lambda>r. gc_game_id r = gameId) (game_cards d))"
    by (simp add: sum_list_triv)
  finally show ?thesis .
qed

lemma getGameCards_sorted: "sorted (map bad_luck_index (getGameCards d gameId))"
  by (simp add: getGameCards_def)

lemma getGameCards_mset: "mset (getGameCards d gameId) = mset (game_cards_join d gameId)"
  by (simp add: getGameCards_def)

lemma getGameCards_columns:
  "mset (map (\<lambda>row. (card_id row, card_name row, card_image row, bad_luck_index row,
                       row_status row, row_round row, row_guess_time row,
                       row_is_correct_guess row)) (getGameCards d gameId))
     = mset (concat (map (\<lambda>r. map (\<lambda>c. (card_id c, card_name c, card_image c, bad_luck_index c,
                                           gc_status r, gc_round r, gc_guess_time r,
                                           gc_is_correct_guess r))
                                    (filter (\<lambda>c. card_id c = gc_card_id r) (cards d)))
                         (filter (\<lambda>r. gc_game_id r = gameId) (game_cards d))))"
proof -
  let ?cols = "\<lambda>row. (card_id row, card_name row, card_image row, bad_luck_index row,
                       row_status row, row_round row, row_guess_time row,
                       row_is_correct_guess row)"
  have "mset (map ?cols (getGameCards d gameId)) = mset (map ?cols (game_cards_join d gameId))"
    by (simp only: mset_map getGameCards_mset)
  also have "map ?cols (game_cards_join d gameId)
      = concat (map (\<lambda>r. map (\<lambda>c. (card_id c, card_name c, card_image c, bad_luck_index c,
                                     gc_status r, gc_round r, gc_guess_time r,
                                     gc_is_correct_guess r))
                              (filter (\<lambda>c. card_id c = gc_card_id r) (cards d)))
                   (filter (\<lambda>r. gc_game_id r = gameId) (game_cards d)))"
    by (simp add: game_cards_join_def join_row_def map_concat comp_def)
  finally show ?thesis .
qed

text \<open>
  C10. The history of a user holds the selected columns of exactly that user's games,
  ordered by start time descending. Each entry carries the rows of its own game, ordered
  by \<^verbatim>\<open>bad_luck_index\<close> ascending: for every event of the game and every card with the
  event's card id, one row that holds the card's id, name, image and index and the
  event's status, round, guess time and correctness flag, and no other row. When card
  ids are unique and every event refers to a catalog card (primary and foreign key),
  that is exactly one row per event.
\<close>

theorem history_ordered:
  "mset (map (\<lambda>e. (h_id e, h_start_time e, h_end_time e, h_outcome e, h_cards_collected e))
             (getGameHistory d userId))
     = mset (map (\<lambda>g. (game_id g, start_time g, end_time g, game_outcome g, cards_collected g))
             (filter (\<lambda>g. user_id g = userId) (games d)))
   \<and> sorted (rev (map h_start_time (getGameHistory d userId)))
   \<and> (\<forall>e \<in> set (getGameHistory d userId).
         gameCards e = getGameCards d (h_id e)
       \<and> sorted (map bad_luck_index (gameCards e))
       \<and> mset (map (\<lambda>row. (card_id row, card_name row, card_image row, bad_luck_index row,
                             row_status row, row_round row, row_guess_time row,
                             row_is_correct_guess row)) (gameCards e))
           = mset (concat (map (\<lambda>r. map (\<lambda>c. (card_id c, card_name c, card_image c,
                                                 bad_luck_index c, gc_status r, gc_round r,
                                                 gc_guess_time r, gc_is_correct_guess r))
                                          (filter (\<lambda>c. card_id c = gc_card_id r) (cards d)))
                               (filter (\<lambda>r. gc_game_id r = h_id e) (game_cards d))))
       \<and> (distinct (map card_id (cards d))
            \<and> (\<forall>r \<in> set (game_cards d). gc_card_id r \<in> card_id ` set (cards d))
          \<longrightarrow> length (gameCards e)
                = length (filter (\<lambda>r. gc_game_id r = h_id e) (game_cards d))))
   \<and> route_history d userId = Json (getGameHistory d userId)"
proof (intro conjI ballI)
  let ?gs = "order_by_desc start_time (filter (\<lambda>g. user_id g = userId) (games d))"
  have a: "map (\<lambda>e. (h_id e, h_start_time e, h_end_time e, h_outcome e, h_cards_collected e))
             (getGameHistory d userId)
         = map (\<lambda>g. (game_id g, start_time g, end_time g, game_outcome g, cards_collected g)) ?gs"
    by (simp add: getGameHistory_def comp_def)
  have "mset (map (\<lambda>g. (game_id g, start_time g, end_time g, game_outcome g, cards_collected g)) ?gs)
      = mset (map (\<lambda>g. (game_id g, start_time g, end_time g, game_outcome g, cards_collected g))
             (filter (\<lambda>g. user_id g = userId) (games d)))"
    by (simp only: mset_map mset_order_by_desc)
  with a show "mset (map (\<lambda>e. (h_id e, h_start_time e, h_end_time e, h_outcome e, h_cards_collected e))
             (getGameHistory d userId))
     = mset (map (\<lambda>g. (game_id g, start_time g, end_time g, game_outcome g, cards_collected g))
             (filter (\<lambda>g. user_id g = userId) (games d)))"
    by simp
  have "map h_start_time (getGameHistory d userId) = map start_time ?gs"
    by (simp add: getGameHistory_def comp_def)
  then show "sorted (rev (map h_start_time (getGameHistory d userId)))"
    by (simp only: sorted_order_by_desc)
  show "route_history d userId = Json (getGameHistory d userId)"
    by (simp add: route_history_def)
next
  fix e
  assume e: "e \<in> set (getGameHistory d userId)"
  then show own: "gameCards e = getGameCards d (h_id e)"
    by (auto simp: getGameHistory_def)
  show "sorted (map bad_luck_index (gameCards e))"
    unfolding own by (rule getGameCards_sorted)
  show "mset (map (\<lambda>row. (card_id row, card_name row, card_image row, bad_luck_index row,
                             row_status row, row_round row, row_guess_time row,
                             row_is_correct_guess row)) (gameCards e))
           = mset (concat (map (\<lambda>r. map (\<lambda>c. (card_id c, card_name c, card_image c,
                                                 bad_luck_index c, gc_status r, gc_round r,
                                                 gc_guess_time r, gc_is_correct_guess r))
                                          (filter (\<lambda>c. card_id c = gc_card_id r) (cards d)))
                               (filter (\<lambda>r. gc_game_id r = h_id e) (game_cards d))))"
    unfolding own by (rule getGameCards_columns)
  show "distinct (map card_id (cards d))
            \<and> (\<forall>r \<in> set (game_cards d). gc_card_id r \<in> card_id ` set (cards d))
          \<longrightarrow> length (gameCards e)
                = length (filter (\<lambda>r. gc_game_id r = h_id e) (game_cards d))"
  proof
    assume k: "distinct (map card_id (cards d))
            \<and> (\<forall>r \<in> set (game_cards d). gc_card_id r \<in> card_id ` set (cards d))"
    from length_game_cards_join[OF conjunct1[OF k] conjunct2[OF k], of "h_id e"]
      getGameCards_mset[of d "h_id e"]
    show "length (gameCards e)
                = length (filter (\<lambda>r. gc_game_id r = h_id e) (game_cards d))"
      unfolding own by (metis size_mset)
  qed
qed

theorem history_ordered_witness:
  "map h_id (getGameHistory history_db 1) = [3, 1]
   \<and> map h_start_time (getGameHistory history_db 1)
        = [''2025-06-03T09:30:00.000Z'', ''2025-06-01T10:00:00.000Z'']
   \<and> sorted (rev (map h_start_time (getGameHistory history_db 1)))
   \<and> map gameCards (getGameHistory history_db 1)
        = [[\<lparr>card_id = 2, card_name = ''B'', card_image = ''b.png'', bad_luck_index = 5,
             row_status = S_won, row_round = SqlInteger 1,
             row_guess_time = Some ''2025-06-03T09:31:10.000Z'', row_is_correct_guess = Some 1\<rparr>,
            \<lparr>card_id = 4, card_name = ''D'', card_image = ''d.png'', bad_luck_index = 7,
             row_status = S_initial, row_round = SqlNull, row_guess_time = None,
             row_is_correct_guess = None\<rparr>],
           [\<lparr>card_id = 1, card_name = ''A'', card_image = ''a.png'', bad_luck_index = 1,
             row_status = S_initial, row_round = SqlNull, row_guess_time = None,
             row_is_correct_guess = None\<rparr>,
            \<lparr>card_id = 3, card_name = ''C'', card_image = ''c.png'', bad_luck_index = 9,
             row_status = S_initial, row_round = SqlNull, row_guess_time = None,
             row_is_correct_guess = None\<rparr>]]
   \<and> distinct (map card_id (cards history_db))
   \<and> set (map gc_card_id (game_cards history_db)) \<subseteq> set (map card_id (cards history_db))
   \<and> map (\<lambda>e. length (gameCards e)) (getGameHistory history_db 1) = [2, 2]"
proof -
  have h: "map h_id (getGameHistory history_db 1) = [3, 1]"
    "map h_start_time (getGameHistory history_db 1)
        = [''2025-06-03T09:30:00.000Z'', ''2025-06-01T10:00:00.000Z'']"
    by (simp_all add: getGameHistory_def order_by_desc_def history_db_def)
  have c: "map gameCards (getGameHistory history_db 1)
        = [[\<lparr>card_id = 2, card_name = ''B'', card_image = ''b.png'', bad_luck_index = 5,
             row_status = S_won, row_round = SqlInteger 1,
             row_guess_time = Some ''2025-06-03T09:31:10.000Z'', row_is_correct_guess = Some 1\<rparr>,
            \<lparr>card_id = 4, card_name = ''D'', card_image = ''d.png'', bad_luck_index = 7,
             row_status = S_initial, row_round = SqlNull, row_guess_time = None,
             row_is_correct_guess = None\<rparr>],
           [\<lparr>card_id = 1, card_name = ''A'', card_image = ''a.png'', bad_luck_index = 1,
             row_status = S_initial, row_round = SqlNull, row_guess_time = None,
             row_is_correct_guess = None\<rparr>,
            \<lparr>card_id = 3, card_name = ''C'', card_image = ''c.png'', bad_luck_index = 9,
             row_status = S_initial, row_round = SqlNull, row_guess_time = None,
             row_is_correct_guess = None\<rparr>]]"
    by (simp add: getGameHistory_def order_by_desc_def history_db_def dao_defs scenario_defs)
  have k: "distinct (map card_id (cards history_db))"
    "\<forall>r \<in> set (game_cards history_db). gc_card_id r \<in> card_id ` set (cards history_db)"
    by (simp_all add: history_db_def scenario_defs)
  have n: "length (filter (\<lambda>r. gc_game_id r = h_id e) (game_cards history_db)) = 2"
    if "e \<in> set (getGameHistory history_db 1)" for e
  proof -
    from that h(1) have "h_id e \<in> set [3, 1]"
      by (metis image_eqI list.set_map)
    then show ?thesis by (auto simp: history_db_def initial_row_def round_row_def)
  qed
  note t = history_ordered[of history_db 1]
  have "\<forall>e \<in> set (getGameHistory history_db 1). length (gameCards e) = 2"
  proof
    fix e
    assume e: "e \<in> set (getGameHistory history_db 1)"
    with t k have "length (gameCards e)
                     = length (filter (\<lambda>r. gc_game_id r = h_id e) (game_cards history_db))"
      by blast
    with n[OF e] show "length (gameCards e) = 2"
      by simp
  qed
  then have "map (\<lambda>e. length (gameCards e)) (getGameHistory history_db 1) = [2, 2]"
    using arg_cong[OF h(1), of length]
    by (simp add: map_eq_conv[symmetric] map_replicate_const numeral_2_eq_2)
  moreover have "set (map gc_card_id (game_cards history_db)) \<subseteq> set (map card_id (cards history_db))"
    using k(2) by auto
  moreover from t have "sorted (rev (map h_start_time (getGameHistory history_db 1)))"
    by (rule conjunct2[THEN conjunct1])
  ultimately show ?thesis using h c k(1) by simp
qed

subsection \<open>Starting a game\<close>


lemma insert_game_card_Inr:
  assumes "insert_game_card d gid cid st rnd gt icg = Inr d'"
  shows "users d' = users d" "cards d' = cards d" "games d' = games d" "seq_games d' = seq_games d"
    "txn d' = txn d"
    "\<exists>row. game_cards d' = game_cards d @ [row] \<and> event_columns row = (gid, cid, st, rnd, gt, icg)"
  using assms
  by (auto simp: insert_game_card_def Let_def event_columns_def split: if_splits)







subsection \<open>Recording a round and ending a game\<close>

lemmas long_defs = card_E_def card_F_def card_G_def card_H_def card_I_def long_catalog_def
  long_db_def long_started_def

lemmas eval_defs = route_guess_def dao_defs scenario_defs long_defs json_defs Let_def
  splice_insert_def guess_loop.simps hand_of_def summary_def

lemma long_start_eval:
  "route_start (\<lambda>k. int k) ''t0'' long_db 1
     = (Json \<lparr>sr_gameId = 1, sr_initialCards = [card_A, card_B, card_C]\<rparr>, long_started)"
  by (simp add: route_start_def dao_defs scenario_defs long_defs upt_rec[of 0] numeral_eq_Suc)

lemma endGame_game_cards: "game_cards (endGame t d g oc n) = game_cards d"
  by (simp add: endGame_def)

lemma getLostRoundsCount_endGame:
  "getLostRoundsCount (endGame t d g oc n) g' = getLostRoundsCount d g'"
  by (simp add: getLostRoundsCount_def endGame_def)



text \<open>A round that has been recorded: one row more, with the bound values.\<close>

lemma recordRoundOutcome_Inr:
  assumes "recordRoundOutcome gt d g c st r icg = Inr d'"
  shows "users d' = users d" "cards d' = cards d" "games d' = games d" "txn d' = txn d"
    "\<exists>row cid. c = SqlInteger cid \<and> game_cards d' = game_cards d @ [row]
        \<and> gc_game_id row = g \<and> gc_card_id row = cid \<and> gc_status row = st \<and> gc_round row = r
        \<and> gc_guess_time row = Some gt"
proof -
  from assms obtain cid where c: "c = SqlInteger cid"
    by (cases c) (simp_all add: recordRoundOutcome_def)
  note ins = insert_game_card_Inr[OF assms[unfolded recordRoundOutcome_def c sql_value.case]]
  from ins show "users d' = users d" "cards d' = cards d" "games d' = games d" "txn d' = txn d"
    by simp_all
  from ins(6) c show "\<exists>row cid. c = SqlInteger cid \<and> game_cards d' = game_cards d @ [row]
        \<and> gc_game_id row = g \<and> gc_card_id row = cid \<and> gc_status row = st \<and> gc_round row = r
        \<and> gc_guess_time row = Some gt"
    by (auto simp: event_columns_def)
qed

lemma recordRoundOutcome_succeeds:
  assumes "cid \<in> card_id ` set (cards d)" and "gameId \<in> game_id ` set (games d)"
    and "cid \<notin> set (getInvolvedCardIds d gameId)"
  shows "\<exists>d1. recordRoundOutcome gt d gameId (SqlInteger cid) st r icg = Inr d1"
proof -
  from assms(3) have "\<not> (\<exists>row \<in> set (game_cards d). gc_game_id row = gameId \<and> gc_card_id row = cid)"
    by (force simp: getInvolvedCardIds_def)
  with assms(1,2) show ?thesis
    by (simp add: recordRoundOutcome_def insert_game_card_def Let_def)
qed

lemma getCardById_Some:
  "cid \<in> card_id ` set (cards d) \<Longrightarrow>
     \<exists>c. getCardById d (SqlInteger cid) = Some c \<and> card_id c = cid"
  unfolding getCardById_def sql_value.case
  by (cases "find (\<lambda>c. card_id c = cid) (cards d)")
     (auto simp: find_None_iff dest: find_Some_iff[THEN iffD1])

subsection \<open>The lose-round handler, case by case\<close>

lemma route_lose_round_BadRequest:
  "gameIdParam = None \<or> js_isNaN cardId \<or> js_isNaN roundNumber \<Longrightarrow>
   route_lose_round gt et d gameIdParam cardId roundNumber = (BadRequest, d)"
  by (auto simp: route_lose_round_def split: option.splits)

lemma route_lose_round_ServerError:
  assumes "\<not> js_isNaN cardId" "\<not> js_isNaN roundNumber"
    and "recordRoundOutcome gt d gameId (js_bound cardId) S_discarded (js_bound roundNumber)
           (Some False) = Inl e"
  shows "route_lose_round gt et d (Some gameId) cardId roundNumber = (ServerError, d)"
  using assms by (simp add: route_lose_round_def)

lemma route_lose_round_recorded:
  assumes "\<not> js_isNaN cardId" "\<not> js_isNaN roundNumber"
    and "recordRoundOutcome gt d gameId (js_bound cardId) S_discarded (js_bound roundNumber)
           (Some False) = Inr d1"
  shows "route_lose_round gt et d (Some gameId) cardId roundNumber
     = (if getLostRoundsCount d1 gameId \<ge> 3
        then (Json \<lparr>lr_gameOutcome = Some Lost, lr_cardsLostCount = getLostRoundsCount d1 gameId\<rparr>,
              endGame et d1 gameId Lost
                (length (filter (\<lambda>c. row_status c \<in> set [S_initial, S_won])
                                (getGameCards d1 gameId))))
        else (Json \<lparr>lr_gameOutcome = None, lr_cardsLostCount = getLostRoundsCount d1 gameId\<rparr>, d1))"
  using assms by (simp add: route_lose_round_def Let_def)

text \<open>Every call of the lose-round handler is one of the three.\<close>

lemma route_lose_round_cases:
  "(gameIdParam = None \<or> js_isNaN cardId \<or> js_isNaN roundNumber)
   \<or> (\<exists>gameId e. gameIdParam = Some gameId \<and> \<not> js_isNaN cardId \<and> \<not> js_isNaN roundNumber
         \<and> recordRoundOutcome gt d gameId (js_bound cardId) S_discarded (js_bound roundNumber)
              (Some False) = Inl e)
   \<or> (\<exists>gameId d1. gameIdParam = Some gameId \<and> \<not> js_isNaN cardId \<and> \<not> js_isNaN roundNumber
         \<and> recordRoundOutcome gt d gameId (js_bound cardId) S_discarded (js_bound roundNumber)
              (Some False) = Inr d1)"
proof (cases gameIdParam)
  case None
  then show ?thesis by simp
next
  case (Some gameId)
  then show ?thesis
    by (cases "recordRoundOutcome gt d gameId (js_bound cardId) S_discarded (js_bound roundNumber)
                 (Some False)") auto
qed

subsection \<open>The lost count and timeouts\<close>

text \<open>The lost count after a timeout is the lost count before it.\<close>

lemma lose_round_keeps_lost_count:
  "getLostRoundsCount (snd (route_lose_round gt et d gameIdParam cardId roundNumber)) g
     = getLostRoundsCount d g"
proof -
  consider (bad) "gameIdParam = None \<or> js_isNaN cardId \<or> js_isNaN roundNumber"
    | (failed) gameId e where "gameIdParam = Some gameId" "\<not> js_isNaN cardId"
        "\<not> js_isNaN roundNumber"
        "recordRoundOutcome gt d gameId (js_bound cardId) S_discarded (js_bound roundNumber)
              (Some False) = Inl e"
    | (recorded) gameId d1 where "gameIdParam = Some gameId" "\<not> js_isNaN cardId"
        "\<not> js_isNaN roundNumber"
        "recordRoundOutcome gt d gameId (js_bound cardId) S_discarded (js_bound roundNumber)
              (Some False) = Inr d1"
    using route_lose_round_cases[of gameIdParam cardId roundNumber gt d] by blast
  then show ?thesis
  proof cases
    case bad
    then show ?thesis by (simp add: route_lose_round_BadRequest)
  next
    case failed
    then show ?thesis by (simp add: route_lose_round_ServerError)
  next
    case recorded
    from recordRoundOutcome_Inr(5)[OF recorded(4)] obtain row where
      row: "game_cards d1 = game_cards d @ [row]" "gc_status row = S_discarded"
      by blast
    then have "getLostRoundsCount d1 g = getLostRoundsCount d g"
      by (simp add: getLostRoundsCount_def)
    then show ?thesis
      unfolding recorded(1) route_lose_round_recorded[OF recorded(2,3,4)]
      by (simp add: getLostRoundsCount_endGame)
  qed
qed

lemma route_lose_round_thresholds:
  assumes "route_lose_round gt et d gameIdParam cardId roundNumber = (Json res, d')"
  shows "\<exists>gameId. gameIdParam = Some gameId
           \<and> lr_cardsLostCount res = getLostRoundsCount d gameId"
    and "lr_gameOutcome res = (if lr_cardsLostCount res \<ge> 3 then Some Lost else None)"
proof -
  consider (bad) "gameIdParam = None \<or> js_isNaN cardId \<or> js_isNaN roundNumber"
    | (failed) gameId e where "gameIdParam = Some gameId" "\<not> js_isNaN cardId"
        "\<not> js_isNaN roundNumber"
        "recordRoundOutcome gt d gameId (js_bound cardId) S_discarded (js_bound roundNumber)
              (Some False) = Inl e"
    | (recorded) gameId d1 where "gameIdParam = Some gameId" "\<not> js_isNaN cardId"
        "\<not> js_isNaN roundNumber"
        "recordRoundOutcome gt d gameId (js_bound cardId) S_discarded (js_bound roundNumber)
              (Some False) = Inr d1"
    using route_lose_round_cases[of gameIdParam cardId roundNumber gt d] by blast
  then have "(\<exists>gameId. gameIdParam = Some gameId
           \<and> lr_cardsLostCount res = getLostRoundsCount d gameId)
       \<and> lr_gameOutcome res = (if lr_cardsLostCount res \<ge> 3 then Some Lost else None)"
  proof cases
    case bad
    with assms show ?thesis by (simp add: route_lose_round_BadRequest)
  next
    case failed
    with assms show ?thesis by (simp add: route_lose_round_ServerError)
  next
    case recorded
    from recordRoundOutcome_Inr(5)[OF recorded(4)] obtain row where
      "game_cards d1 = game_cards d @ [row]" "gc_status row = S_discarded"
      by blast
    then have same: "getLostRoundsCount d1 gameId = getLostRoundsCount d gameId"
      by (simp add: getLostRoundsCount_def)
    from assms[unfolded recorded(1) route_lose_round_recorded[OF recorded(2,3,4)]] same recorded(1)
    show ?thesis by (auto split: if_splits)
  qed
  then show "\<exists>gameId. gameIdParam = Some gameId
           \<and> lr_cardsLostCount res = getLostRoundsCount d gameId"
    and "lr_gameOutcome res = (if lr_cardsLostCount res \<ge> 3 then Some Lost else None)"
    by simp_all
qed

text \<open>
  C1, on the code. On the game just started in the scenario (lost count 0), the
  lose-round handler records card D with status \<^verbatim>\<open>discarded\<close> and answers with a lost
  count of 0; \<^verbatim>\<open>getLostRoundsCount\<close> is 0 afterwards as well. The query counts the rows of
  status \<^verbatim>\<open>lost\<close> and the \<^verbatim>\<open>proposed\<close> rows with a correctness flag of 0, and no
  \<^verbatim>\<open>discarded\<close> row.
\<close>

theorem timeout_not_counted_as_lost:
  "getLostRoundsCount scenario_started 1 = 0
   \<and> fst (route_lose_round ''t1'' ''t2'' scenario_started (Some 1) (json_number 4) (json_number 1))
       = Json \<lparr>lr_gameOutcome = None, lr_cardsLostCount = 0\<rparr>
   \<and> game_cards (snd (route_lose_round ''t1'' ''t2'' scenario_started (Some 1) (json_number 4) (json_number 1)))
       = game_cards scenario_started @ [round_row 4 1 4 S_discarded 1 ''t1'' 0]
   \<and> getLostRoundsCount
        (snd (route_lose_round ''t1'' ''t2'' scenario_started (Some 1) (json_number 4) (json_number 1))) 1 = 0"
  by (simp add: route_lose_round_def dao_defs scenario_defs json_defs Let_def)

subsection \<open>The guess handler, case by case\<close>

lemma route_guess_BadRequest:
  "gameIdParam = None \<or> js_isNaN cardId \<or> playerHandField = None
     \<or> js_isNaN placementIndex \<or> js_isNaN roundNumber \<Longrightarrow>
   route_guess gt et d gameIdParam cardId playerHandField placementIndex roundNumber
     = (BadRequest, d)"
  by (auto simp: route_guess_def split: option.splits)

lemma route_guess_NotFound:
  assumes "\<not> js_isNaN cardId" "\<not> js_isNaN placementIndex" "\<not> js_isNaN roundNumber"
    and "getCardById d (js_bound cardId) = None"
  shows "route_guess gt et d (Some gameId) cardId (Some hand) placementIndex roundNumber
           = (NotFound, d)"
  using assms by (simp add: route_guess_def)

lemma route_guess_ServerError:
  assumes "\<not> js_isNaN cardId" "\<not> js_isNaN placementIndex" "\<not> js_isNaN roundNumber"
    and "getCardById d (js_bound cardId) = Some newCard"
    and "recordRoundOutcome gt d gameId (js_bound cardId)
                (if guess_loop 0 (splice_insert (js_integer placementIndex)
                      \<lparr>item_id = card_id newCard, item_bli = bad_luck_index newCard\<rparr> hand)
                 then S_won else S_lost)
                (js_bound roundNumber)
                (Some (guess_loop 0 (splice_insert (js_integer placementIndex)
                      \<lparr>item_id = card_id newCard, item_bli = bad_luck_index newCard\<rparr> hand)))
           = Inl e"
  shows "route_guess gt et d (Some gameId) cardId (Some hand) placementIndex roundNumber
           = (ServerError, d)"
  using assms by (simp add: route_guess_def Let_def)

text \<open>The guess handler from the moment the round has been recorded.\<close>

lemma route_guess_recorded:
  assumes "\<not> js_isNaN cardId" "\<not> js_isNaN placementIndex" "\<not> js_isNaN roundNumber"
    and "getCardById d (js_bound cardId) = Some newCard"
    and "recordRoundOutcome gt d gameId (js_bound cardId)
                (if guess_loop 0 (splice_insert (js_integer placementIndex)
                      \<lparr>item_id = card_id newCard, item_bli = bad_luck_index newCard\<rparr> hand)
                 then S_won else S_lost)
                (js_bound roundNumber)
                (Some (guess_loop 0 (splice_insert (js_integer placementIndex)
                      \<lparr>item_id = card_id newCard, item_bli = bad_luck_index newCard\<rparr> hand)))
           = Inr d1"
  shows "route_guess gt et d (Some gameId) cardId (Some hand) placementIndex roundNumber
     = (Json \<lparr>isCorrect = guess_loop 0 (splice_insert (js_integer placementIndex)
                      \<lparr>item_id = card_id newCard, item_bli = bad_luck_index newCard\<rparr> hand),
              badLuckIndex = bad_luck_index newCard,
              wonCard = (if guess_loop 0 (splice_insert (js_integer placementIndex)
                      \<lparr>item_id = card_id newCard, item_bli = bad_luck_index newCard\<rparr> hand)
                         then Some newCard else None),
              currentCards = filter (\<lambda>c. row_status c \<in> set [S_initial, S_won]) (getGameCards d1 gameId),
              gameOutcome = (if getWonCardsCount d1 gameId \<ge> 3 then Some Won
                             else if getLostRoundsCount d1 gameId \<ge> 3 then Some Lost else None),
              cardsWonCount = getWonCardsCount d1 gameId,
              cardsLostCount = getLostRoundsCount d1 gameId\<rparr>,
        if getWonCardsCount d1 gameId \<ge> 3
        then endGame et d1 gameId Won
               (length (filter (\<lambda>c. row_status c \<in> set [S_initial, S_won]) (getGameCards d1 gameId)))
        else if getLostRoundsCount d1 gameId \<ge> 3
        then endGame et d1 gameId Lost
               (length (filter (\<lambda>c. row_status c \<in> set [S_initial, S_won]) (getGameCards d1 gameId)))
        else d1)"
  using assms by (simp add: route_guess_def Let_def)


text \<open>A guess that is not answered with 200 leaves the database as it was.\<close>

lemma route_guess_rejected:
  assumes "\<forall>res. fst (route_guess gt et d gameIdParam cardId playerHandField
                         placementIndex roundNumber) \<noteq> Json res"
  shows "snd (route_guess gt et d gameIdParam cardId playerHandField
                placementIndex roundNumber) = d"
proof (cases "gameIdParam = None \<or> js_isNaN cardId \<or> playerHandField = None
     \<or> js_isNaN placementIndex \<or> js_isNaN roundNumber")
  case True
  then show ?thesis by (simp add: route_guess_BadRequest)
next
  case False
  then obtain gameId hand where some: "gameIdParam = Some gameId" "playerHandField = Some hand"
    by auto
  from False have nn: "\<not> js_isNaN cardId" "\<not> js_isNaN placementIndex" "\<not> js_isNaN roundNumber"
    by simp_all
  show ?thesis
  proof (cases "getCardById d (js_bound cardId)")
    case None
    show ?thesis unfolding some by (simp only: route_guess_NotFound[OF nn None] snd_conv)
  next
    case (Some newCard)
    let ?ok = "guess_loop 0 (splice_insert (js_integer placementIndex)
                      \<lparr>item_id = card_id newCard, item_bli = bad_luck_index newCard\<rparr> hand)"
    show ?thesis
    proof (cases "recordRoundOutcome gt d gameId (js_bound cardId)
                    (if ?ok then S_won else S_lost) (js_bound roundNumber) (Some ?ok)")
      case (Inl e)
      show ?thesis
        unfolding some by (simp only: route_guess_ServerError[OF nn Some Inl] snd_conv)
    next
      case (Inr d1)
      from assms show ?thesis
        unfolding some by (simp only: route_guess_recorded[OF nn Some Inr] fst_conv) simp
    qed
  qed
qed

text \<open>The status 400 is answered for the failed checks only, and 404 for the unknown
  card only.\<close>

lemma route_guess_BadRequest_iff:
  "fst (route_guess gt et d gameIdParam cardId playerHandField placementIndex roundNumber)
     = BadRequest
   \<longleftrightarrow> (gameIdParam = None \<or> js_isNaN cardId \<or> playerHandField = None
        \<or> js_isNaN placementIndex \<or> js_isNaN roundNumber)"
proof (cases "gameIdParam = None \<or> js_isNaN cardId \<or> playerHandField = None
     \<or> js_isNaN placementIndex \<or> js_isNaN roundNumber")
  case True
  then show ?thesis by (simp add: route_guess_BadRequest)
next
  case False
  then obtain gameId hand where some: "gameIdParam = Some gameId" "playerHandField = Some hand"
    by auto
  from False have nn: "\<not> js_isNaN cardId" "\<not> js_isNaN placementIndex" "\<not> js_isNaN roundNumber"
    by simp_all
  have "fst (route_guess gt et d (Some gameId) cardId (Some hand) placementIndex roundNumber)
          \<noteq> BadRequest"
  proof (cases "getCardById d (js_bound cardId)")
    case None
    show ?thesis by (simp add: route_guess_NotFound[OF nn None])
  next
    case (Some newCard)
    let ?ok = "guess_loop 0 (splice_insert (js_integer placementIndex)
                      \<lparr>item_id = card_id newCard, item_bli = bad_luck_index newCard\<rparr> hand)"
    show ?thesis
    proof (cases "recordRoundOutcome gt d gameId (js_bound cardId)
                    (if ?ok then S_won else S_lost) (js_bound roundNumber) (Some ?ok)")
      case (Inl e)
      show ?thesis by (simp add: route_guess_ServerError[OF nn Some Inl])
    next
      case (Inr d1)
      show ?thesis by (simp only: route_guess_recorded[OF nn Some Inr] fst_conv) simp
    qed
  qed
  with False some show ?thesis by simp
qed

lemma route_guess_NotFound_iff:
  assumes nn: "\<not> js_isNaN cardId" "\<not> js_isNaN placementIndex" "\<not> js_isNaN roundNumber"
  shows "fst (route_guess gt et d (Some gameId) cardId (Some hand) placementIndex roundNumber)
           = NotFound
         \<longleftrightarrow> getCardById d (js_bound cardId) = None"
proof (cases "getCardById d (js_bound cardId)")
  case None
  then show ?thesis by (simp add: route_guess_NotFound[OF nn None])
next
  case (Some newCard)
  let ?ok = "guess_loop 0 (splice_insert (js_integer placementIndex)
                    \<lparr>item_id = card_id newCard, item_bli = bad_luck_index newCard\<rparr> hand)"
  have "fst (route_guess gt et d (Some gameId) cardId (Some hand) placementIndex roundNumber)
          \<noteq> NotFound"
  proof (cases "recordRoundOutcome gt d gameId (js_bound cardId)
                  (if ?ok then S_won else S_lost) (js_bound roundNumber) (Some ?ok)")
    case (Inl e)
    show ?thesis by (simp add: route_guess_ServerError[OF nn Some Inl])
  next
    case (Inr d1)
    show ?thesis by (simp only: route_guess_recorded[OF nn Some Inr] fst_conv) simp
  qed
  with Some show ?thesis by simp
qed

subsection \<open>Thresholds\<close>











lemma timeout_1_eval:
  "timeout_1 = (Json \<lparr>lr_gameOutcome = None, lr_cardsLostCount = 0\<rparr>,
      long_started\<lparr>game_cards := game_cards long_started @ [round_row 4 1 4 S_discarded 1 ''t1'' 0],
                   seq_game_cards := 4\<rparr>)"
  by (simp add: timeout_1_def route_lose_round_def dao_defs scenario_defs long_defs json_defs Let_def)

lemma timeout_2_eval:
  "timeout_2 = (Json \<lparr>lr_gameOutcome = None, lr_cardsLostCount = 0\<rparr>,
      long_started\<lparr>game_cards := game_cards long_started @
                     [round_row 4 1 4 S_discarded 1 ''t1'' 0, round_row 5 1 5 S_discarded 2 ''t2'' 0],
                   seq_game_cards := 5\<rparr>)"
  unfolding timeout_2_def timeout_1_eval
  by (simp add: route_lose_round_def dao_defs scenario_defs long_defs json_defs Let_def)

lemma timeout_3_eval:
  "timeout_3 = (Json \<lparr>lr_gameOutcome = None, lr_cardsLostCount = 0\<rparr>,
      long_started\<lparr>game_cards := game_cards long_started @
                     [round_row 4 1 4 S_discarded 1 ''t1'' 0, round_row 5 1 5 S_discarded 2 ''t2'' 0,
                      round_row 6 1 6 S_discarded 3 ''t3'' 0],
                   seq_game_cards := 6\<rparr>)"
  unfolding timeout_3_def timeout_2_eval
  by (simp add: route_lose_round_def dao_defs scenario_defs long_defs json_defs Let_def)

text \<open>
  C2, on the code. Three timeouts in a row on a game just started (cards D, E, F) are
  each answered with outcome none and a lost count of 0, and leave the game in progress
  with three \<^verbatim>\<open>discarded\<close> rows. (Three right guesses end the game as Won and three wrong
  guesses as Lost: \<open>guess_3_eval\<close>, \<open>wrong_3_eval\<close>; the rule of the guess handler is
  \<open>route_guess_thresholds\<close>.)
\<close>

theorem three_timeouts_not_lost:
  "map game_outcome (games long_started) = [InProgress]
   \<and> fst timeout_1 = Json \<lparr>lr_gameOutcome = None, lr_cardsLostCount = 0\<rparr>
   \<and> fst timeout_2 = Json \<lparr>lr_gameOutcome = None, lr_cardsLostCount = 0\<rparr>
   \<and> fst timeout_3 = Json \<lparr>lr_gameOutcome = None, lr_cardsLostCount = 0\<rparr>
   \<and> map gc_status (game_cards (snd timeout_3))
       = [S_initial, S_initial, S_initial, S_discarded, S_discarded, S_discarded]
   \<and> games (snd timeout_3)
       = [\<lparr>game_id = 1, user_id = 1, start_time = ''t0'', end_time = [],
           game_outcome = InProgress, cards_collected = 0\<rparr>]"
  unfolding timeout_1_eval timeout_2_eval timeout_3_eval
  by (simp add: scenario_defs long_defs)

subsection \<open>Finished games\<close>










subsection \<open>The placement index\<close>

lemma splice_insert_clamp_high:
  "int (length xs) \<le> p \<Longrightarrow> splice_insert p x xs = splice_insert (int (length xs)) x xs"
  by (simp add: splice_insert_def Let_def)

lemma splice_insert_clamp_low:
  "p < 0 \<Longrightarrow> splice_insert p x xs = splice_insert (max (int (length xs) + p) 0) x xs"
  by (simp add: splice_insert_def Let_def max_def min_def)

text \<open>Of the placement index the handler uses \<^verbatim>\<open>isNaN\<close> and the position that
  \<^verbatim>\<open>splice\<close> makes of it, and nothing else.\<close>

lemma route_guess_splice_cong:
  assumes isn: "js_isNaN q = js_isNaN p"
    and spl: "\<And>x. splice_insert (js_integer p) x hand = splice_insert (js_integer q) x hand"
  shows "route_guess gt et d gameIdParam cardId (Some hand) p roundNumber
           = route_guess gt et d gameIdParam cardId (Some hand) q roundNumber"
proof (cases "gameIdParam = None \<or> js_isNaN cardId \<or> js_isNaN p \<or> js_isNaN roundNumber")
  case True
  then have bp: "gameIdParam = None \<or> js_isNaN cardId \<or> Some hand = None
      \<or> js_isNaN p \<or> js_isNaN roundNumber"
    by simp
  from True isn have bq: "gameIdParam = None \<or> js_isNaN cardId \<or> Some hand = None
      \<or> js_isNaN q \<or> js_isNaN roundNumber"
    by simp
  show ?thesis
    by (simp only: route_guess_BadRequest[OF bp] route_guess_BadRequest[OF bq])
next
  case False
  then obtain gameId where some: "gameIdParam = Some gameId"
    by auto
  from False have nnp: "\<not> js_isNaN cardId" "\<not> js_isNaN p" "\<not> js_isNaN roundNumber"
    by simp_all
  from False isn have nnq: "\<not> js_isNaN cardId" "\<not> js_isNaN q" "\<not> js_isNaN roundNumber"
    by simp_all
  show ?thesis
  proof (cases "getCardById d (js_bound cardId)")
    case None
    show ?thesis
      unfolding some
      by (simp only: route_guess_NotFound[OF nnp None] route_guess_NotFound[OF nnq None])
  next
    case (Some newCard)
    show ?thesis
    proof (cases "recordRoundOutcome gt d gameId (js_bound cardId)
                (if guess_loop 0 (splice_insert (js_integer p)
                      \<lparr>item_id = card_id newCard, item_bli = bad_luck_index newCard\<rparr> hand)
                 then S_won else S_lost)
                (js_bound roundNumber)
                (Some (guess_loop 0 (splice_insert (js_integer p)
                      \<lparr>item_id = card_id newCard, item_bli = bad_luck_index newCard\<rparr> hand)))")
      case (Inl e)
      note recq = Inl[unfolded spl]
      show ?thesis
        unfolding some
        by (simp only: route_guess_ServerError[OF nnp Some Inl]
              route_guess_ServerError[OF nnq Some recq])
    next
      case (Inr d1)
      note recq = Inr[unfolded spl]
      show ?thesis
        unfolding some
        by (simp only: route_guess_recorded[OF nnp Some Inr]
              route_guess_recorded[OF nnq Some recq] spl)
    qed
  qed
qed

lemma route_guess_clamp_high:
  assumes "int (length hand) \<le> js_integer p" and "js_isNaN q = js_isNaN p"
    and "js_integer q = int (length hand)"
  shows "route_guess gt et d gameIdParam cardId (Some hand) p roundNumber
     = route_guess gt et d gameIdParam cardId (Some hand) q roundNumber"
proof (rule route_guess_splice_cong[OF assms(2)])
  fix x :: hand_item
  show "splice_insert (js_integer p) x hand = splice_insert (js_integer q) x hand"
    unfolding assms(3) by (rule splice_insert_clamp_high[OF assms(1)])
qed

lemma route_guess_clamp_low:
  assumes "js_integer p < 0" and "js_isNaN q = js_isNaN p"
    and "js_integer q = max (int (length hand) + js_integer p) 0"
  shows "route_guess gt et d gameIdParam cardId (Some hand) p roundNumber
     = route_guess gt et d gameIdParam cardId (Some hand) q roundNumber"
proof (rule route_guess_splice_cong[OF assms(2)])
  fix x :: hand_item
  show "splice_insert (js_integer p) x hand = splice_insert (js_integer q) x hand"
    unfolding assms(3) by (rule splice_insert_clamp_low[OF assms(1)])
qed

text \<open>A guess for a card of the catalog that the game has not seen is answered with
  success, and recorded as the request gives it.\<close>

lemma route_guess_accepts:
  assumes nn: "\<not> js_isNaN cardId" "\<not> js_isNaN placementIndex" "\<not> js_isNaN roundNumber"
    and cid: "js_bound cardId = SqlInteger cid"
    and pre: "cid \<in> card_id ` set (cards d)" "gameId \<in> game_id ` set (games d)"
      "cid \<notin> set (getInvolvedCardIds d gameId)"
  shows "\<exists>res d' row.
           route_guess gt et d (Some gameId) cardId (Some hand) placementIndex roundNumber
             = (Json res, d')
         \<and> game_cards d' = game_cards d @ [row]
         \<and> gc_game_id row = gameId \<and> gc_card_id row = cid
         \<and> gc_status row = (if isCorrect res then S_won else S_lost)
         \<and> gc_round row = js_bound roundNumber"
proof -
  from getCardById_Some[OF pre(1)] cid obtain newCard where
    card: "getCardById d (js_bound cardId) = Some newCard"
    by auto
  let ?ok = "guess_loop 0 (splice_insert (js_integer placementIndex)
                      \<lparr>item_id = card_id newCard, item_bli = bad_luck_index newCard\<rparr> hand)"
  from recordRoundOutcome_succeeds[OF pre, where gt = gt
      and st = "if ?ok then S_won else S_lost" and r = "js_bound roundNumber"
      and icg = "Some ?ok"]
  obtain d1 where
    rec: "recordRoundOutcome gt d gameId (js_bound cardId) (if ?ok then S_won else S_lost)
            (js_bound roundNumber) (Some ?ok) = Inr d1"
    unfolding cid by blast
  from recordRoundOutcome_Inr(5)[OF rec] cid obtain row where
    row: "game_cards d1 = game_cards d @ [row]" "gc_game_id row = gameId" "gc_card_id row = cid"
      "gc_status row = (if ?ok then S_won else S_lost)" "gc_round row = js_bound roundNumber"
    by auto
  show ?thesis
    unfolding route_guess_recorded[OF nn card rec]
    using row by (auto simp: endGame_game_cards)
qed

text \<open>
  C7, as the code has it. The handler answers 400 exactly when \<^verbatim>\<open>isNaN\<close> holds of the
  parsed \<^verbatim>\<open>gameId\<close>, of \<^verbatim>\<open>cardId\<close>, of \<^verbatim>\<open>placementIndex\<close> or of \<^verbatim>\<open>roundNumber\<close>, or
  \<^verbatim>\<open>playerHand\<close> is not an array: a value that \<^verbatim>\<open>isNaN\<close> lets through (\<^verbatim>\<open>null\<close>, \<^verbatim>\<open>""\<close>,
  \<^verbatim>\<open>true\<close>) is not rejected here. Past these checks it answers 404 exactly when no
  card has the bound \<^verbatim>\<open>cardId\<close> as its id. Every request that is not answered 200
  leaves the database unchanged. Of the placement index only the position that
  \<^verbatim>\<open>splice\<close> reads from it matters (0 for \<^verbatim>\<open>null\<close>), and it is not checked against the hand:
  an index beyond the end is treated as the length of the hand, a negative one is
  counted from the end and stops at 0. For a card of the catalog not yet involved in
  an existing game the guess is answered 200 whatever the index and the round number
  are, and one event row is recorded for that game and card, with the status of the
  decision and with the round number as it is bound (NULL for \<^verbatim>\<open>null\<close>).
\<close>

theorem guess_placement_clamped:
  "(fst (route_guess gt et d gameIdParam cardId playerHandField placementIndex roundNumber)
      = BadRequest
    \<longleftrightarrow> (gameIdParam = None \<or> js_isNaN cardId \<or> playerHandField = None
         \<or> js_isNaN placementIndex \<or> js_isNaN roundNumber))
   \<and> (\<not> js_isNaN cardId \<and> \<not> js_isNaN placementIndex \<and> \<not> js_isNaN roundNumber \<longrightarrow>
        (fst (route_guess gt et d (Some gameId) cardId (Some hand) placementIndex roundNumber)
           = NotFound
         \<longleftrightarrow> getCardById d (js_bound cardId) = None))
   \<and> ((\<forall>res. fst (route_guess gt et d gameIdParam cardId playerHandField placementIndex
                     roundNumber) \<noteq> Json res) \<longrightarrow>
        snd (route_guess gt et d gameIdParam cardId playerHandField placementIndex
               roundNumber) = d)
   \<and> (js_isNaN q = js_isNaN placementIndex \<and> js_integer q = js_integer placementIndex \<longrightarrow>
        route_guess gt et d gameIdParam cardId (Some hand) placementIndex roundNumber
          = route_guess gt et d gameIdParam cardId (Some hand) q roundNumber)
   \<and> (int (length hand) \<le> js_integer placementIndex \<and> js_isNaN q = js_isNaN placementIndex
        \<and> js_integer q = int (length hand) \<longrightarrow>
        route_guess gt et d gameIdParam cardId (Some hand) placementIndex roundNumber
          = route_guess gt et d gameIdParam cardId (Some hand) q roundNumber)
   \<and> (js_integer placementIndex < 0 \<and> js_isNaN q = js_isNaN placementIndex
        \<and> js_integer q = max (int (length hand) + js_integer placementIndex) 0 \<longrightarrow>
        route_guess gt et d gameIdParam cardId (Some hand) placementIndex roundNumber
          = route_guess gt et d gameIdParam cardId (Some hand) q roundNumber)
   \<and> (\<not> js_isNaN cardId \<and> \<not> js_isNaN placementIndex \<and> \<not> js_isNaN roundNumber
        \<and> js_bound cardId = SqlInteger cid
        \<and> cid \<in> card_id ` set (cards d) \<and> gameId \<in> game_id ` set (games d)
        \<and> cid \<notin> set (getInvolvedCardIds d gameId) \<longrightarrow>
        (\<exists>res d' row.
           route_guess gt et d (Some gameId) cardId (Some hand) placementIndex roundNumber
             = (Json res, d')
         \<and> game_cards d' = game_cards d @ [row]
         \<and> gc_game_id row = gameId \<and> gc_card_id row = cid
         \<and> gc_status row = (if isCorrect res then S_won else S_lost)
         \<and> gc_round row = js_bound roundNumber))"
proof (intro conjI)
  show "fst (route_guess gt et d gameIdParam cardId playerHandField placementIndex roundNumber)
      = BadRequest
    \<longleftrightarrow> (gameIdParam = None \<or> js_isNaN cardId \<or> playerHandField = None
         \<or> js_isNaN placementIndex \<or> js_isNaN roundNumber)"
    by (rule route_guess_BadRequest_iff)
  show "\<not> js_isNaN cardId \<and> \<not> js_isNaN placementIndex \<and> \<not> js_isNaN roundNumber \<longrightarrow>
        (fst (route_guess gt et d (Some gameId) cardId (Some hand) placementIndex roundNumber)
           = NotFound
         \<longleftrightarrow> getCardById d (js_bound cardId) = None)"
    using route_guess_NotFound_iff[where cardId = cardId and placementIndex = placementIndex
        and roundNumber = roundNumber and gt = gt and et = et and d = d and gameId = gameId
        and hand = hand]
    by blast
  show "(\<forall>res. fst (route_guess gt et d gameIdParam cardId playerHandField placementIndex
                     roundNumber) \<noteq> Json res) \<longrightarrow>
        snd (route_guess gt et d gameIdParam cardId playerHandField placementIndex
               roundNumber) = d"
    by (rule impI) (rule route_guess_rejected)
  show "js_isNaN q = js_isNaN placementIndex \<and> js_integer q = js_integer placementIndex \<longrightarrow>
        route_guess gt et d gameIdParam cardId (Some hand) placementIndex roundNumber
          = route_guess gt et d gameIdParam cardId (Some hand) q roundNumber"
    using route_guess_splice_cong[where hand = hand and p = placementIndex and q = q and gt = gt
        and et = et and d = d and gameIdParam = gameIdParam and cardId = cardId
        and roundNumber = roundNumber]
    by simp
  show "int (length hand) \<le> js_integer placementIndex \<and> js_isNaN q = js_isNaN placementIndex
        \<and> js_integer q = int (length hand) \<longrightarrow>
        route_guess gt et d gameIdParam cardId (Some hand) placementIndex roundNumber
          = route_guess gt et d gameIdParam cardId (Some hand) q roundNumber"
    using route_guess_clamp_high[where hand = hand and p = placementIndex and q = q and gt = gt
        and et = et and d = d and gameIdParam = gameIdParam and cardId = cardId
        and roundNumber = roundNumber]
    by blast
  show "js_integer placementIndex < 0 \<and> js_isNaN q = js_isNaN placementIndex
        \<and> js_integer q = max (int (length hand) + js_integer placementIndex) 0 \<longrightarrow>
        route_guess gt et d gameIdParam cardId (Some hand) placementIndex roundNumber
          = route_guess gt et d gameIdParam cardId (Some hand) q roundNumber"
    using route_guess_clamp_low[where hand = hand and p = placementIndex and q = q and gt = gt
        and et = et and d = d and gameIdParam = gameIdParam and cardId = cardId
        and roundNumber = roundNumber]
    by blast
  show "\<not> js_isNaN cardId \<and> \<not> js_isNaN placementIndex \<and> \<not> js_isNaN roundNumber
        \<and> js_bound cardId = SqlInteger cid
        \<and> cid \<in> card_id ` set (cards d) \<and> gameId \<in> game_id ` set (games d)
        \<and> cid \<notin> set (getInvolvedCardIds d gameId) \<longrightarrow>
        (\<exists>res d' row.
           route_guess gt et d (Some gameId) cardId (Some hand) placementIndex roundNumber
             = (Json res, d')
         \<and> game_cards d' = game_cards d @ [row]
         \<and> gc_game_id row = gameId \<and> gc_card_id row = cid
         \<and> gc_status row = (if isCorrect res then S_won else S_lost)
         \<and> gc_round row = js_bound roundNumber)"
    using route_guess_accepts[where cardId = cardId and placementIndex = placementIndex
        and roundNumber = roundNumber and cid = cid and d = d and gameId = gameId
        and gt = gt and et = et and hand = hand]
    by blast
qed

theorem guess_placement_clamped_witness:
  "fst (route_guess ''t1'' ''t2'' scenario_started None (json_number 4) (Some scenario_hand) (json_number 2) (json_number 1)) = BadRequest
   \<and> fst (route_guess ''t1'' ''t2'' scenario_started (Some 1) (json_number 4) (Some scenario_hand) (json_number 2) js_undefined) = BadRequest
   \<and> fst (route_guess ''t1'' ''t2'' scenario_started (Some 1) (json_number 4) (Some scenario_hand) (json_number 2) json_null) \<noteq> BadRequest
   \<and> getCardById scenario_started (js_bound (json_number 99)) = None
   \<and> route_guess ''t1'' ''t2'' scenario_started (Some 1) (json_number 99) (Some scenario_hand) (json_number 2) (json_number 1) = (NotFound, scenario_started)
   \<and> getCardById scenario_started (js_bound json_null) = None
   \<and> route_guess ''t1'' ''t2'' scenario_started (Some 1) json_null (Some scenario_hand) (json_number 2) (json_number 1) = (NotFound, scenario_started)
   \<and> route_guess ''t1'' ''t2'' scenario_started (Some 1) (json_number 4) (Some scenario_hand) json_null (json_number 1) = route_guess ''t1'' ''t2'' scenario_started (Some 1) (json_number 4) (Some scenario_hand) (json_number 0) (json_number 1)
   \<and> int (length scenario_hand) \<le> js_integer (json_number 10)
   \<and> route_guess ''t1'' ''t2'' scenario_started (Some 1) (json_number 4) (Some scenario_hand) (json_number 10) (json_number 1) = route_guess ''t1'' ''t2'' scenario_started (Some 1) (json_number 4) (Some scenario_hand) (json_number 3) (json_number 1)
   \<and> route_guess ''t1'' ''t2'' scenario_started (Some 1) (json_number 4) (Some scenario_hand) (json_number (- 7)) (json_number 1) = route_guess ''t1'' ''t2'' scenario_started (Some 1) (json_number 4) (Some scenario_hand) (json_number 0) (json_number 1)
   \<and> 4 \<in> set (map card_id (cards scenario_started))
   \<and> 1 \<in> set (map game_id (games scenario_started))
   \<and> 4 \<notin> set (getInvolvedCardIds scenario_started 1)
   \<and> length (game_cards (snd (route_guess ''t1'' ''t2'' scenario_started (Some 1) (json_number 4) (Some scenario_hand) (json_number 10) json_null)))
       = length (game_cards scenario_started) + 1
   \<and> gc_round (last (game_cards (snd (route_guess ''t1'' ''t2'' scenario_started (Some 1) (json_number 4) (Some scenario_hand) (json_number 10) json_null)))) = SqlNull
   \<and> game_cards (snd (route_guess ''t1'' ''t2'' scenario_started (Some 1) (json_number 4) (Some scenario_hand) (json_number 10) json_null))
       = game_cards scenario_started @
           [\<lparr>gc_id = 4, gc_game_id = 1, gc_card_id = 4, gc_status = S_lost, gc_round = SqlNull,
             gc_guess_time = Some ''t1'', gc_is_correct_guess = Some 0\<rparr>]
   \<and> route_guess ''t1'' ''t2'' scenario_started (Some 1) json_empty_string (Some scenario_hand) (json_number 2) (json_number 1)
       = (NotFound, scenario_started)
   \<and> route_guess ''t1'' ''t2'' scenario_started (Some 1) json_true (Some scenario_hand) (json_number 2) (json_number 1)
       = (ServerError, scenario_started)"
proof -
  have nan: "\<not> js_isNaN (json_number n)" "\<not> js_isNaN json_null" "js_isNaN js_undefined"
    "js_integer (json_number n) = n" "js_integer json_null = 0"
    "js_bound (json_number n) = SqlInteger n" "js_bound json_null = SqlNull" for n
    by (simp_all add: json_defs)
  have nf: "getCardById scenario_started (js_bound (json_number 99)) = None"
    "getCardById scenario_started (js_bound json_null) = None"
    by (simp_all add: getCardById_def scenario_defs json_defs)
  have len: "int (length scenario_hand) = 3"
    by (simp add: scenario_hand_def)
  have pre: "4 \<in> card_id ` set (cards scenario_started)"
    "1 \<in> game_id ` set (games scenario_started)"
    "4 \<notin> set (getInvolvedCardIds scenario_started 1)"
    by (simp_all add: getInvolvedCardIds_def scenario_defs)
  from guess_placement_clamped[where d = scenario_started and gt = "''t1''" and et = "''t2''"
      and gameId = 1 and hand = scenario_hand and playerHandField = "Some scenario_hand"
      and gameIdParam = None and cardId = "(json_number 4)" and placementIndex = "(json_number 2)"
      and roundNumber = "(json_number 1)",
      THEN conjunct1]
  have a: "fst (route_guess ''t1'' ''t2'' scenario_started None (json_number 4) (Some scenario_hand) (json_number 2) (json_number 1)) = BadRequest"
    by simp
  from guess_placement_clamped[where d = scenario_started and gt = "''t1''" and et = "''t2''"
      and gameId = 1 and hand = scenario_hand and playerHandField = "Some scenario_hand"
      and gameIdParam = "Some 1" and cardId = "(json_number 4)" and placementIndex = "(json_number 2)"
      and roundNumber = js_undefined,
      THEN conjunct1] nan
  have b: "fst (route_guess ''t1'' ''t2'' scenario_started (Some 1) (json_number 4) (Some scenario_hand) (json_number 2) js_undefined) = BadRequest"
    by simp
  from guess_placement_clamped[where d = scenario_started and gt = "''t1''" and et = "''t2''"
      and gameId = 1 and hand = scenario_hand and playerHandField = "Some scenario_hand"
      and gameIdParam = "Some 1" and cardId = "(json_number 4)" and placementIndex = "(json_number 2)"
      and roundNumber = json_null,
      THEN conjunct1] nan
  have c: "fst (route_guess ''t1'' ''t2'' scenario_started (Some 1) (json_number 4) (Some scenario_hand) (json_number 2) json_null) \<noteq> BadRequest"
    by simp
  from guess_placement_clamped[where d = scenario_started and gt = "''t1''" and et = "''t2''"
      and gameId = 1 and hand = scenario_hand and playerHandField = "Some scenario_hand"
      and cardId = "(json_number 99)" and placementIndex = "(json_number 2)" and roundNumber = "(json_number 1)",
      THEN conjunct2, THEN conjunct1] nan nf
  have e1: "fst (route_guess ''t1'' ''t2'' scenario_started (Some 1) (json_number 99) (Some scenario_hand) (json_number 2) (json_number 1)) = NotFound"
    by simp
  from guess_placement_clamped[where d = scenario_started and gt = "''t1''" and et = "''t2''"
      and gameId = 1 and hand = scenario_hand and playerHandField = "Some scenario_hand"
      and gameIdParam = "Some 1" and cardId = "(json_number 99)" and placementIndex = "(json_number 2)"
      and roundNumber = "(json_number 1)",
      THEN conjunct2, THEN conjunct2, THEN conjunct1] e1
  have e2: "snd (route_guess ''t1'' ''t2'' scenario_started (Some 1) (json_number 99) (Some scenario_hand) (json_number 2) (json_number 1)) = scenario_started"
    by simp
  from e1 e2 have e: "route_guess ''t1'' ''t2'' scenario_started (Some 1) (json_number 99) (Some scenario_hand) (json_number 2) (json_number 1) = (NotFound, scenario_started)"
    by (simp add: prod_eq_iff)
  from guess_placement_clamped[where d = scenario_started and gt = "''t1''" and et = "''t2''"
      and gameId = 1 and hand = scenario_hand and playerHandField = "Some scenario_hand"
      and cardId = json_null and placementIndex = "(json_number 2)" and roundNumber = "(json_number 1)",
      THEN conjunct2, THEN conjunct1] nan nf
  have f1: "fst (route_guess ''t1'' ''t2'' scenario_started (Some 1) json_null (Some scenario_hand) (json_number 2) (json_number 1)) = NotFound"
    by simp
  from guess_placement_clamped[where d = scenario_started and gt = "''t1''" and et = "''t2''"
      and gameId = 1 and hand = scenario_hand and playerHandField = "Some scenario_hand"
      and gameIdParam = "Some 1" and cardId = json_null and placementIndex = "(json_number 2)"
      and roundNumber = "(json_number 1)",
      THEN conjunct2, THEN conjunct2, THEN conjunct1] f1
  have f2: "snd (route_guess ''t1'' ''t2'' scenario_started (Some 1) json_null (Some scenario_hand) (json_number 2) (json_number 1)) = scenario_started"
    by simp
  from f1 f2 have f: "route_guess ''t1'' ''t2'' scenario_started (Some 1) json_null (Some scenario_hand) (json_number 2) (json_number 1) = (NotFound, scenario_started)"
    by (simp add: prod_eq_iff)
  from guess_placement_clamped[where d = scenario_started and gt = "''t1''" and et = "''t2''"
      and gameId = 1 and hand = scenario_hand and playerHandField = "Some scenario_hand"
      and gameIdParam = "Some 1" and cardId = "(json_number 4)" and placementIndex = json_null
      and q = "(json_number 0)" and roundNumber = "(json_number 1)",
      THEN conjunct2, THEN conjunct2, THEN conjunct2, THEN conjunct1] nan
  have g: "route_guess ''t1'' ''t2'' scenario_started (Some 1) (json_number 4) (Some scenario_hand) json_null (json_number 1) = route_guess ''t1'' ''t2'' scenario_started (Some 1) (json_number 4) (Some scenario_hand) (json_number 0) (json_number 1)"
    by simp
  from guess_placement_clamped[where d = scenario_started and gt = "''t1''" and et = "''t2''"
      and gameId = 1 and hand = scenario_hand and playerHandField = "Some scenario_hand"
      and gameIdParam = "Some 1" and cardId = "(json_number 4)" and placementIndex = "(json_number 10)"
      and q = "(json_number 3)" and roundNumber = "(json_number 1)",
      THEN conjunct2, THEN conjunct2, THEN conjunct2, THEN conjunct2, THEN conjunct1] nan len
  have h: "route_guess ''t1'' ''t2'' scenario_started (Some 1) (json_number 4) (Some scenario_hand) (json_number 10) (json_number 1) = route_guess ''t1'' ''t2'' scenario_started (Some 1) (json_number 4) (Some scenario_hand) (json_number 3) (json_number 1)"
    by simp
  from guess_placement_clamped[where d = scenario_started and gt = "''t1''" and et = "''t2''"
      and gameId = 1 and hand = scenario_hand and playerHandField = "Some scenario_hand"
      and gameIdParam = "Some 1" and cardId = "(json_number 4)" and placementIndex = "(json_number (- 7))"
      and q = "(json_number 0)" and roundNumber = "(json_number 1)",
      THEN conjunct2, THEN conjunct2, THEN conjunct2, THEN conjunct2, THEN conjunct2,
      THEN conjunct1] nan len
  have i: "route_guess ''t1'' ''t2'' scenario_started (Some 1) (json_number 4) (Some scenario_hand) (json_number (- 7)) (json_number 1) = route_guess ''t1'' ''t2'' scenario_started (Some 1) (json_number 4) (Some scenario_hand) (json_number 0) (json_number 1)"
    by simp
  from guess_placement_clamped[where d = scenario_started and gt = "''t1''" and et = "''t2''"
      and gameId = 1 and hand = scenario_hand and playerHandField = "Some scenario_hand"
      and cardId = "(json_number 4)" and cid = 4 and placementIndex = "(json_number 10)"
      and roundNumber = json_null,
      THEN conjunct2, THEN conjunct2, THEN conjunct2, THEN conjunct2, THEN conjunct2,
      THEN conjunct2] nan pre
  obtain res d' row where
    acc: "route_guess ''t1'' ''t2'' scenario_started (Some 1) (json_number 4) (Some scenario_hand) (json_number 10) json_null = (Json res, d')"
      "game_cards d' = game_cards scenario_started @ [row]" "gc_round row = SqlNull"
    by auto
  from acc have j: "length (game_cards (snd (route_guess ''t1'' ''t2'' scenario_started (Some 1) (json_number 4) (Some scenario_hand) (json_number 10) json_null)))
       = length (game_cards scenario_started) + 1"
    "gc_round (last (game_cards (snd (route_guess ''t1'' ''t2'' scenario_started (Some 1) (json_number 4) (Some scenario_hand) (json_number 10) json_null)))) = SqlNull"
    by simp_all
  have k: "game_cards (snd (route_guess ''t1'' ''t2'' scenario_started (Some 1) (json_number 4) (Some scenario_hand) (json_number 10) json_null))
       = game_cards scenario_started @
           [\<lparr>gc_id = 4, gc_game_id = 1, gc_card_id = 4, gc_status = S_lost, gc_round = SqlNull,
             gc_guess_time = Some ''t1'', gc_is_correct_guess = Some 0\<rparr>]"
    by (simp add: eval_defs)
  from len nan have l: "int (length scenario_hand) \<le> js_integer (json_number 10)"
    by simp
  from pre have m: "4 \<in> set (map card_id (cards scenario_started))"
    "1 \<in> set (map game_id (games scenario_started))"
    by simp_all
  have n: "route_guess ''t1'' ''t2'' scenario_started (Some 1) json_empty_string (Some scenario_hand) (json_number 2) (json_number 1)
       = (NotFound, scenario_started)"
    by (simp add: eval_defs)
  have o: "route_guess ''t1'' ''t2'' scenario_started (Some 1) json_true (Some scenario_hand) (json_number 2) (json_number 1)
       = (ServerError, scenario_started)"
    by (simp add: eval_defs)
  show ?thesis
    by (intro conjI a b c nf e f g l h i m pre(3) j k n o)
qed

lemma out_of_range_guess_eval:
  "map_response summary
     (fst (route_guess ''t1'' ''t2'' scenario_started (Some 1) (json_number 4) (Some scenario_hand)
             (json_number 10) (json_number 1))) = Json (False, None, 0, 1, [1, 2, 3])
   \<and> game_cards (snd (route_guess ''t1'' ''t2'' scenario_started (Some 1) (json_number 4)
                        (Some scenario_hand) (json_number 10) (json_number 1)))
       = game_cards scenario_started @ [round_row 4 1 4 S_lost 1 ''t1'' 0]"
  by (simp add: eval_defs)

text \<open>C7 as stated fails: with a hand of three cards, placement index 10 is judged (as
  a placement after the last card) and the round is recorded as lost.\<close>

theorem out_of_range_guess_counterexample:
  "length scenario_hand = 3
   \<and> map_response summary
     (fst (route_guess ''t1'' ''t2'' scenario_started (Some 1) (json_number 4) (Some scenario_hand)
             (json_number 10) (json_number 1))) = Json (False, None, 0, 1, [1, 2, 3])
   \<and> game_cards (snd (route_guess ''t1'' ''t2'' scenario_started (Some 1) (json_number 4)
                        (Some scenario_hand) (json_number 10) (json_number 1)))
       = game_cards scenario_started @ [round_row 4 1 4 S_lost 1 ''t1'' 0]"
  using out_of_range_guess_eval by (simp add: scenario_hand_def)

end
